theory Spec2Isabelle
  imports Complex_Main
begin

section \<open>Tree individualization (dendromatics, individualize.py)\<close>

text \<open>
  A shallow embedding of \<^verbatim>\<open>compute_axes_exact\<close>, \<^verbatim>\<open>compute_axes_approximate\<close> and
  \<^verbatim>\<open>compute_heights\<close>. Conventions:

  \<^item> a two-dimensional numpy array is the list of its rows, a row the list of its entries;
    an integer column index follows Python's rule (negative indices count from the end,
    anything else out of range raises \<^verbatim>\<open>IndexError\<close>). The index is checked row by
    row, so an out-of-range column of an array with no rows is not reported;
  \<^item> float64 arithmetic is the arithmetic of \<open>real\<close> (no rounding, no overflow). The one
    place where the source relies on IEEE special values, the division inside the
    deviation angle, is modelled with an explicit type of float results;
  \<^item> every exception of the source is a value \<open>Inl e\<close>;
  \<^item> the external collaborators are parameters (\<open>pca_fit\<close>, \<open>voxelate\<close>, \<open>dbscan\<close>) or,
    for the nearest-neighbour index, an exact linear scan;
  \<^item> the progress hook is a Python callable: it may raise, and it may modify in place the
    two arrays of the caller, \<^verbatim>\<open>voxelated_cloud\<close> and \<^verbatim>\<open>clust_stripe\<close>, which the
    functions read again after each call. It is a function from these two arrays and a
    state \<open>'w\<close> of its own to an error or to the arrays and the state that it leaves; the
    arrays that the functions allocate themselves are out of its reach. Printing and
    timing are left out.
\<close>

subsection \<open>Errors\<close>

datatype error = IndexError | ValueError | RuntimeError | OverflowError

definition and_then :: "error + 'a \<Rightarrow> ('a \<Rightarrow> error + 'b) \<Rightarrow> error + 'b" where
  "and_then m f = (case m of Inl e \<Rightarrow> Inl e | Inr x \<Rightarrow> f x)"

fun map_result :: "('a \<Rightarrow> error + 'b) \<Rightarrow> 'a list \<Rightarrow> error + 'b list" where
  "map_result f [] = Inr []"
| "map_result f (x # xs) =
     and_then (f x) (\<lambda>y. and_then (map_result f xs) (\<lambda>ys. Inr (y # ys)))"

fun for_each :: "('a \<Rightarrow> 's \<Rightarrow> error + 's) \<Rightarrow> 'a list \<Rightarrow> 's \<Rightarrow> error + 's" where
  "for_each body [] s = Inr s"
| "for_each body (x # xs) s = and_then (body x s) (for_each body xs)"

subsection \<open>numpy on lists\<close>

type_synonym vec3 = "real \<times> real \<times> real"

definition py_index :: "'a list \<Rightarrow> int \<Rightarrow> error + 'a" where
  "py_index xs i =
     (if 0 \<le> i \<and> i < int (length xs) then Inr (xs ! nat i)
      else if i < 0 \<and> - int (length xs) \<le> i then Inr (xs ! nat (int (length xs) + i))
      else Inl IndexError)"

text \<open>\<^verbatim>\<open>arr[:, f]\<close>\<close>
definition column :: "real list list \<Rightarrow> int \<Rightarrow> error + real list" where
  "column arr f = map_result (\<lambda>r. py_index r f) arr"

text \<open>\<^verbatim>\<open>arr[:, [a, b, c]]\<close>: an array of three columns.\<close>
definition xyz_columns :: "real list list \<Rightarrow> int \<Rightarrow> int \<Rightarrow> int \<Rightarrow> error + vec3 list" where
  "xyz_columns arr a b c =
     map_result (\<lambda>r. and_then (py_index r a) (\<lambda>x. and_then (py_index r b) (\<lambda>y.
                       and_then (py_index r c) (\<lambda>z. Inr (x, y, z))))) arr"

text \<open>\<^verbatim>\<open>arr[:, [a, b]]\<close>\<close>
definition pair_columns :: "real list list \<Rightarrow> int \<Rightarrow> int \<Rightarrow> error + (real \<times> real) list" where
  "pair_columns arr a b =
     map_result (\<lambda>r. and_then (py_index r a) (\<lambda>x. and_then (py_index r b) (\<lambda>y. Inr (x, y)))) arr"

text \<open>Column \<open>k\<close> of an array of three columns.\<close>
definition vec3_index :: "vec3 \<Rightarrow> int \<Rightarrow> error + real" where
  "vec3_index v k = (case v of (x, y, z) \<Rightarrow> py_index [x, y, z] k)"

text \<open>\<^verbatim>\<open>arr[mask]\<close> for a boolean mask of the array's length.\<close>
definition boolean_index :: "'a list \<Rightarrow> bool list \<Rightarrow> 'a list" where
  "boolean_index arr msk = map snd (filter fst (zip msk arr))"

text \<open>\<^verbatim>\<open>arr[mask] = v\<close> and \<^verbatim>\<open>arr[mask] = src[mask]\<close>\<close>
definition masked_fill :: "'a list \<Rightarrow> bool list \<Rightarrow> 'a \<Rightarrow> 'a list" where
  "masked_fill arr msk v = map2 (\<lambda>m x. if m then v else x) msk arr"

definition masked_copy :: "'a list \<Rightarrow> bool list \<Rightarrow> 'a list \<Rightarrow> 'a list" where
  "masked_copy arr msk src = map2 (\<lambda>m (s, x). if m then s else x) msk (zip src arr)"

text \<open>\<^verbatim>\<open>np.unique(xs, return_counts=True)\<close>: the sorted distinct values and their counts.\<close>
definition np_unique :: "real list \<Rightarrow> real list" where
  "np_unique xs = sort (remdups xs)"

definition np_counts :: "real list \<Rightarrow> nat list" where
  "np_counts xs = map (count_list xs) (np_unique xs)"

text \<open>\<^verbatim>\<open>np.mean\<close> of a non-empty vector.\<close>
definition np_mean :: "real list \<Rightarrow> real" where
  "np_mean xs = sum_list xs / real (length xs)"

definition mean3 :: "vec3 list \<Rightarrow> vec3" where
  "mean3 ps = (np_mean (map fst ps), np_mean (map (fst \<circ> snd) ps), np_mean (map (snd \<circ> snd) ps))"

text \<open>\<^verbatim>\<open>np.min\<close>, \<^verbatim>\<open>np.max\<close>, \<^verbatim>\<open>np.ptp\<close>: reductions without identity, \<^verbatim>\<open>ValueError\<close> on
  an empty vector.\<close>
fun min_list_from :: "real \<Rightarrow> real list \<Rightarrow> real" where
  "min_list_from m [] = m"
| "min_list_from m (x # xs) = min_list_from (min m x) xs"

fun max_list_from :: "real \<Rightarrow> real list \<Rightarrow> real" where
  "max_list_from m [] = m"
| "max_list_from m (x # xs) = max_list_from (max m x) xs"

definition np_min :: "real list \<Rightarrow> error + real" where
  "np_min xs = (case xs of [] \<Rightarrow> Inl ValueError | x # ys \<Rightarrow> Inr (min_list_from x ys))"

definition np_max :: "real list \<Rightarrow> error + real" where
  "np_max xs = (case xs of [] \<Rightarrow> Inl ValueError | x # ys \<Rightarrow> Inr (max_list_from x ys))"

definition np_ptp :: "real list \<Rightarrow> error + real" where
  "np_ptp xs = and_then (np_max xs) (\<lambda>hi. and_then (np_min xs) (\<lambda>lo. Inr (hi - lo)))"

definition np_hypot :: "real \<Rightarrow> real \<Rightarrow> real" where
  "np_hypot a b = sqrt (a * a + b * b)"

definition dot3 :: "vec3 \<Rightarrow> vec3 \<Rightarrow> real" where
  "dot3 u v = (case u of (a, b, c) \<Rightarrow> case v of (x, y, z) \<Rightarrow> a * x + b * y + c * z)"

definition sub3 :: "vec3 \<Rightarrow> vec3 \<Rightarrow> vec3" where
  "sub3 u v = (case u of (a, b, c) \<Rightarrow> case v of (x, y, z) \<Rightarrow> (a - x, b - y, c - z))"

definition add3 :: "vec3 \<Rightarrow> vec3 \<Rightarrow> vec3" where
  "add3 u v = (case u of (a, b, c) \<Rightarrow> case v of (x, y, z) \<Rightarrow> (a + x, b + y, c + z))"

definition scale3 :: "real \<Rightarrow> vec3 \<Rightarrow> vec3" where
  "scale3 t v = (case v of (x, y, z) \<Rightarrow> (t * x, t * y, t * z))"

text \<open>\<^verbatim>\<open>np.linalg.norm\<close> of a 3-vector.\<close>
definition norm3 :: "vec3 \<Rightarrow> real" where
  "norm3 v = sqrt (dot3 v v)"

subsection \<open>Float results with IEEE special values\<close>

text \<open>
  numpy divides float64 scalars without raising: a non-zero value over zero is an
  infinity, zero over zero is NaN. \<^verbatim>\<open>arctan\<close> of an infinity is \<open>\<plusminus>\<pi>/2\<close>, NaN propagates,
  and every comparison with NaN is false. (The sign of a zero divisor is not modelled:
  the results below go through \<^verbatim>\<open>np.abs\<close>.)
\<close>

datatype npfloat = Finite real | PosInf | NegInf | NaN

definition np_divide :: "real \<Rightarrow> real \<Rightarrow> npfloat" where
  "np_divide a b =
     (if b = 0 then (if a = 0 then NaN else if 0 < a then PosInf else NegInf)
      else Finite (a / b))"

fun np_arctan :: "npfloat \<Rightarrow> npfloat" where
  "np_arctan (Finite x) = Finite (arctan x)"
| "np_arctan PosInf = Finite (pi / 2)"
| "np_arctan NegInf = Finite (- (pi / 2))"
| "np_arctan NaN = NaN"

fun np_degrees :: "npfloat \<Rightarrow> npfloat" where
  "np_degrees (Finite x) = Finite (x * 180 / pi)"
| "np_degrees PosInf = PosInf"
| "np_degrees NegInf = NegInf"
| "np_degrees NaN = NaN"

fun np_abs :: "npfloat \<Rightarrow> npfloat" where
  "np_abs (Finite x) = Finite \<bar>x\<bar>"
| "np_abs PosInf = PosInf"
| "np_abs NegInf = PosInf"
| "np_abs NaN = NaN"

text \<open>\<^verbatim>\<open>x > m\<close> for a float \<open>x\<close> and a finite \<open>m\<close>.\<close>
fun np_greater :: "npfloat \<Rightarrow> real \<Rightarrow> bool" where
  "np_greater (Finite x) m = (m < x)"
| "np_greater PosInf m = True"
| "np_greater NegInf m = False"
| "np_greater NaN m = False"

subsection \<open>Data\<close>

text \<open>
  The arguments shared by \<^verbatim>\<open>compute_axes_exact\<close> and \<^verbatim>\<open>compute_axes_approximate\<close>,
  under the names of the source.
\<close>

record axes_args =
  voxelated_cloud :: "real list list"
  clust_stripe :: "real list list"
  stripe_lower_limit :: real
  stripe_upper_limit :: real
  h_range :: real
  min_points :: int
  d_max :: real
  X_field :: int
  Y_field :: int
  Z_field :: int
  Z0_field :: int
  tree_id_field :: int

text \<open>
  A row of \<^verbatim>\<open>detected_trees\<close> (nine columns): column 0 the tree id, columns 1 to 3 the
  first principal component, columns 4 to 6 the stem centroid, column 7 the height
  difference, column 8 (also column -1) the deviation angle.
\<close>

record tree_row =
  tree_id :: real
  pca1 :: vec3
  stem_centroid :: vec3
  height_diff :: real
  deviation :: npfloat

definition zero_row :: tree_row where
  "zero_row = \<lparr>tree_id = 0, pca1 = (0, 0, 0), stem_centroid = (0, 0, 0), height_diff = 0,
               deviation = Finite 0\<rparr>"

text \<open>
  The fitted \<^verbatim>\<open>sklearn.decomposition.PCA(n_components=3)\<close>: the three rows of
  \<^verbatim>\<open>components_\<close> and \<^verbatim>\<open>mean_\<close> (here \<open>pca_mean\<close>). \<^verbatim>\<open>transform\<close> centres a point and projects it on
  the three components.
\<close>

record pca =
  components_0 :: vec3
  components_1 :: vec3
  components_2 :: vec3
  pca_mean :: vec3

definition pca_transform :: "pca \<Rightarrow> vec3 \<Rightarrow> vec3" where
  "pca_transform p x =
     (let c = sub3 x (pca_mean p)
      in (dot3 c (components_0 p), dot3 c (components_1 p), dot3 c (components_2 p)))"

definition NO_ID :: real where
  "NO_ID = 100000"

text \<open>
  The progress hook and its call \<^verbatim>\<open>progress_hook(k, n)\<close>, guarded by
  \<^verbatim>\<open>progress_hook is not None\<close>. The call sees the arrays of the arguments as they are
  at that moment and leaves them as the hook leaves them; an exception of the hook is an
  exception of the caller.
\<close>

type_synonym arrays = "real list list \<times> real list list"

type_synonym 'w hook = "nat \<Rightarrow> nat \<Rightarrow> arrays \<times> 'w \<Rightarrow> error + arrays \<times> 'w"

definition call_hook ::
  "'w hook option \<Rightarrow> nat \<Rightarrow> nat \<Rightarrow> axes_args \<times> 'w \<Rightarrow> error + axes_args \<times> 'w" where
  "call_hook progress_hook k n Aw =
     (case progress_hook of
        None \<Rightarrow> Inr Aw
      | Some h \<Rightarrow>
          and_then (h k n ((voxelated_cloud (fst Aw), clust_stripe (fst Aw)), snd Aw)) (\<lambda>r.
            Inr ((fst Aw)\<lparr>voxelated_cloud := fst (fst r), clust_stripe := snd (fst r)\<rparr>,
                 snd r)))"

text \<open>
  Two properties that a hook may have: whenever it returns, it has left the two arrays as
  they were; and it never raises.
\<close>

definition keeps_arrays :: "'w hook option \<Rightarrow> bool" where
  "keeps_arrays progress_hook \<longleftrightarrow>
     (\<forall>h k n arrs w r. progress_hook = Some h \<longrightarrow> h k n (arrs, w) = Inr r \<longrightarrow> fst r = arrs)"

definition returns_normally :: "'w hook option \<Rightarrow> bool" where
  "returns_normally progress_hook \<longleftrightarrow>
     (\<forall>h k n aw. progress_hook = Some h \<longrightarrow> (\<exists>r. h k n aw = Inr r))"

subsection \<open>Fitting one stem (lines 123-151 and 391-421)\<close>

definition h_range_value :: "axes_args \<Rightarrow> real" where
  "h_range_value A = (stripe_upper_limit A - stripe_lower_limit A) * h_range A"

text \<open>\<^verbatim>\<open>unique_values[n > min_points]\<close>\<close>
definition filt_unique_values :: "axes_args \<Rightarrow> error + real list" where
  "filt_unique_values A =
     and_then (column (clust_stripe A) (tree_id_field A)) (\<lambda>ids.
       Inr (boolean_index (np_unique ids)
              (map (\<lambda>n. min_points A < int n) (np_counts ids))))"

definition deviation_angle :: "vec3 \<Rightarrow> npfloat" where
  "deviation_angle v =
     (case v of (x, y, z) \<Rightarrow> np_abs (np_degrees (np_arctan (np_divide (np_hypot x y) z))))"

text \<open>
  The part of the loop body that both strategies share: the stem's points, the height
  difference, the test on the vertical extent and, for an accepted stem, the PCA and the
  row of \<^verbatim>\<open>detected_trees\<close>. \<open>None\<close> is the \<^verbatim>\<open>else\<close> branch.
\<close>

definition fit_stem ::
  "(vec3 list \<Rightarrow> error + pca) \<Rightarrow> axes_args \<Rightarrow> real \<Rightarrow> error + (tree_row \<times> pca) option" where
  "fit_stem pca_fit A i =
     and_then (column (clust_stripe A) (tree_id_field A)) (\<lambda>ids.
     let tree_mask = map (\<lambda>v. v = i) ids;
         masked = boolean_index (clust_stripe A) tree_mask
     in and_then (xyz_columns masked (X_field A) (Y_field A) (Z_field A)) (\<lambda>stem_i.
        and_then (pair_columns masked (Z_field A) (Z0_field A)) (\<lambda>zz0.
        let diff_z_z0 = np_mean (map fst zz0) - np_mean (map snd zz0)
        in and_then (map_result (\<lambda>v. vec3_index v (Z_field A)) stem_i) (\<lambda>stem_z.
           and_then (np_ptp stem_z) (\<lambda>ptp.
           if h_range_value A < ptp then
             and_then (pca_fit stem_i) (\<lambda>pca_out.
               Inr (Some (\<lparr>tree_id = i, pca1 = components_0 pca_out,
                            stem_centroid = mean3 stem_i, height_diff = diff_z_z0,
                            deviation = deviation_angle (components_0 pca_out)\<rparr>, pca_out)))
           else Inr None)))))"

subsection \<open>\<^verbatim>\<open>compute_axes_exact\<close>\<close>

record exact_state =
  detected_trees :: "tree_row list"
  id_valid :: nat
  id_progress :: nat
  dist_to_axis :: "real list"
  tree_id_vector :: "real list"

text \<open>
  Lines 123-158: the stem's row and the distance of every point of the cloud to the
  stem's axis, in the stem's own PCA frame.
\<close>

definition stem_axis ::
  "(vec3 list \<Rightarrow> error + pca) \<Rightarrow> axes_args \<Rightarrow> real \<Rightarrow> error + (tree_row \<times> real list) option" where
  "stem_axis pca_fit A i =
     and_then (fit_stem pca_fit A i) (\<lambda>r. case r of
       None \<Rightarrow> Inr None
     | Some (row, pca_out) \<Rightarrow>
         and_then (xyz_columns (voxelated_cloud A) (X_field A) (Y_field A) (Z_field A)) (\<lambda>pts.
           let cloud_pca_coords = map (pca_transform pca_out) pts;
               axis_dist = map (\<lambda>c. case c of (c0, c1, c2) \<Rightarrow> np_hypot c1 c2) cloud_pca_coords
           in Inr (Some (row, axis_dist))))"

text \<open>
  Line 163, \<^verbatim>\<open>(axis_dist < d_max) & (axis_dist < dist_to_axis)\<close>, and the two masked
  assignments of lines 164-165. \<^verbatim>\<open>dist_to_axis\<close> has the length that the cloud had on
  entry and \<^verbatim>\<open>axis_dist\<close> the length that it has now. When the two differ, numpy
  raises: \<^verbatim>\<open>ValueError\<close> at line 163 when neither length is 1 (the vectors cannot be
  broadcast), \<^verbatim>\<open>IndexError\<close> at line 164 or 165 otherwise (the mask has the length of
  the longer vector and indexes the shorter one).
\<close>

definition valid_points_of :: "real \<Rightarrow> real list \<Rightarrow> real list \<Rightarrow> error + bool list" where
  "valid_points_of dmax axis_dist dists =
     (if length axis_dist = length dists
      then Inr (map2 (\<lambda>a d. a < dmax \<and> a < d) axis_dist dists)
      else if length axis_dist = 1 \<or> length dists = 1 then Inl IndexError
      else Inl ValueError)"

text \<open>
  Lines 123-176, one iteration. The state of the loop is the state of the local variables,
  the arguments with the two arrays as the last call of the hook left them, and the
  state of the hook.
\<close>

definition exact_body ::
  "(vec3 list \<Rightarrow> error + pca) \<Rightarrow> 'w hook option \<Rightarrow> nat \<Rightarrow>
   real \<Rightarrow> exact_state \<times> axes_args \<times> 'w \<Rightarrow> error + exact_state \<times> axes_args \<times> 'w" where
  "exact_body pca_fit progress_hook n_values i s =
     (case s of (st, A, w) \<Rightarrow>
      and_then (stem_axis pca_fit A i) (\<lambda>r. case r of
        Some (row, axis_dist) \<Rightarrow>
          and_then (valid_points_of (d_max A) axis_dist (dist_to_axis st)) (\<lambda>valid_points.
          let st' = st\<lparr>detected_trees := (detected_trees st)[id_valid st := row],
                      tree_id_vector := masked_fill (tree_id_vector st) valid_points i,
                      dist_to_axis := masked_copy (dist_to_axis st) valid_points axis_dist,
                      id_valid := id_valid st + 1,
                      id_progress := id_progress st + 1\<rparr>
          in and_then (call_hook progress_hook (id_progress st') n_values (A, w)) (\<lambda>Aw.
               Inr (st', Aw)))
      | None \<Rightarrow>
          let st' = st\<lparr>id_progress := id_progress st + 1\<rparr>
          in and_then (call_hook progress_hook (id_progress st') n_values (A, w)) (\<lambda>Aw.
               Inr (st', Aw))))"

definition exact_init :: "nat \<Rightarrow> nat \<Rightarrow> exact_state" where
  "exact_init n_points n_values =
     \<lparr>detected_trees = replicate n_values zero_row, id_valid = 0, id_progress = 0,
      dist_to_axis = replicate n_points 100000, tree_id_vector = replicate n_points 100000\<rparr>"

definition exact_loop ::
  "(vec3 list \<Rightarrow> error + pca) \<Rightarrow> 'w hook option \<Rightarrow> nat \<Rightarrow>
   real list \<Rightarrow> exact_state \<times> axes_args \<times> 'w \<Rightarrow> error + exact_state \<times> axes_args \<times> 'w" where
  "exact_loop pca_fit progress_hook n_values ids s =
     for_each (exact_body pca_fit progress_hook n_values) ids s"

definition compute_axes_exact ::
  "(vec3 list \<Rightarrow> error + pca) \<Rightarrow> axes_args \<Rightarrow> 'w hook option \<Rightarrow> 'w \<Rightarrow>
   error + (tree_row list \<times> real list \<times> real list) \<times> 'w" where
  "compute_axes_exact pca_fit A progress_hook w =
     and_then (filt_unique_values A) (\<lambda>filt.
     let n_values = length filt
     in and_then (call_hook progress_hook 0 n_values (A, w)) (\<lambda>Aw.
        and_then (exact_loop pca_fit progress_hook n_values filt
                    (exact_init (length (voxelated_cloud A)) n_values, Aw)) (\<lambda>s.
          case s of (st, A', w') \<Rightarrow>
            Inr ((filter (\<lambda>r. r \<noteq> zero_row) (detected_trees st),
                  dist_to_axis st, tree_id_vector st), w'))))"

subsection \<open>\<^verbatim>\<open>compute_axes_approximate\<close>\<close>

definition EPS :: real where
  "EPS = 1 / 1000000"

definition vector_plane_intersection :: "vec3 \<Rightarrow> vec3 \<Rightarrow> vec3 \<Rightarrow> vec3 \<Rightarrow> vec3 option" where
  "vector_plane_intersection axis_pos axis_norm plane_pos plane_norm =
     (let denom = dot3 axis_norm plane_norm
      in if \<bar>denom\<bar> < EPS then None
         else let t = dot3 plane_norm (sub3 plane_pos axis_pos) / denom
              in Some (add3 axis_pos (scale3 t axis_norm)))"

definition axis_bb_inter :: "vec3 \<Rightarrow> vec3 \<Rightarrow> vec3 \<Rightarrow> vec3 \<Rightarrow> error + vec3 \<times> vec3" where
  "axis_bb_inter axis_pos axis_norm tp_pos bp_pos =
     (let top_limit = vector_plane_intersection axis_pos axis_norm tp_pos (0, 0, - 1);
          bottom_limit = vector_plane_intersection axis_pos axis_norm bp_pos (0, 0, 1)
      in case top_limit of
           None \<Rightarrow> Inl RuntimeError
         | Some t \<Rightarrow> (case bottom_limit of None \<Rightarrow> Inl RuntimeError | Some b \<Rightarrow> Inr (b, t)))"

text \<open>
  \<^verbatim>\<open>int(distance / SAMPLE_STEP)\<close>: the quotient of a float64 by zero is an infinity or
  NaN, which \<^verbatim>\<open>int\<close> refuses; otherwise \<^verbatim>\<open>int\<close> truncates towards zero.
\<close>

definition int_of_quotient :: "real \<Rightarrow> real \<Rightarrow> error + int" where
  "int_of_quotient a b =
     (if b = 0 then (if a = 0 then Inl ValueError else Inl OverflowError)
      else Inr (if 0 \<le> a / b then \<lfloor>a / b\<rfloor> else \<lceil>a / b\<rceil>))"

text \<open>\<^verbatim>\<open>np.min(cloud[:, [X, Y, Z]], axis=0)\<close> and \<^verbatim>\<open>np.max\<close>\<close>

definition min3 :: "vec3 list \<Rightarrow> error + vec3" where
  "min3 ps = and_then (np_min (map fst ps)) (\<lambda>x. and_then (np_min (map (fst \<circ> snd) ps)) (\<lambda>y.
             and_then (np_min (map (snd \<circ> snd) ps)) (\<lambda>z. Inr (x, y, z))))"

definition max3 :: "vec3 list \<Rightarrow> error + vec3" where
  "max3 ps = and_then (np_max (map fst ps)) (\<lambda>x. and_then (np_max (map (fst \<circ> snd) ps)) (\<lambda>y.
             and_then (np_max (map (snd \<circ> snd) ps)) (\<lambda>z. Inr (x, y, z))))"

text \<open>
  \<^verbatim>\<open>KDTree(data).query(p, 1)\<close>: the Euclidean distance to the nearest point of \<open>data\<close>
  and its index, found here by a linear scan. When several points of \<open>data\<close> are nearest,
  at the same distance, scipy returns one of them, which one is not specified; the scan
  returns the first, so that an evaluation through \<open>kdtree_query\<close> says what the source
  does only where the nearest point is alone at its distance. For an index over no point
  scipy reports a missing neighbour: an infinite distance, here \<open>None\<close>, and the index
  \<open>len(data)\<close>.
\<close>

definition dist_sq :: "vec3 \<Rightarrow> vec3 \<Rightarrow> real" where
  "dist_sq p q = dot3 (sub3 p q) (sub3 p q)"

fun nearest_from :: "vec3 \<Rightarrow> real \<times> nat \<Rightarrow> nat \<Rightarrow> vec3 list \<Rightarrow> real \<times> nat" where
  "nearest_from p best k [] = best"
| "nearest_from p best k (s # ss) =
     nearest_from p (if dist_sq p s < fst best then (dist_sq p s, k) else best) (Suc k) ss"

definition kdtree_query :: "vec3 list \<Rightarrow> vec3 \<Rightarrow> real option \<times> nat" where
  "kdtree_query data p =
     (case data of
        [] \<Rightarrow> (None, 0)
      | s # ss \<Rightarrow> (case nearest_from p (dist_sq p s, 0) 1 ss of (d2, k) \<Rightarrow> (Some (sqrt d2), k)))"

text \<open>\<^verbatim>\<open>dist_to_axis[dist_to_axis > d_max] = d_max\<close>\<close>
definition clamp_dist :: "real \<Rightarrow> real option \<Rightarrow> real" where
  "clamp_dist dmax d = (case d of None \<Rightarrow> dmax | Some r \<Rightarrow> if dmax < r then dmax else r)"

text \<open>\<^verbatim>\<open>arr[lo : hi] = v\<close>: the slice is cut at the end of the array.\<close>
definition slice_fill :: "'a list \<Rightarrow> nat \<Rightarrow> nat \<Rightarrow> 'a \<Rightarrow> 'a list" where
  "slice_fill arr lo hi v = map2 (\<lambda>k x. if lo \<le> k \<and> k < hi then v else x) [0..<length arr] arr"

text \<open>Lines 458-462.\<close>
fun fill_tree_cluster :: "real list \<Rightarrow> nat \<Rightarrow> (vec3 list \<times> real) list \<Rightarrow> real list" where
  "fill_tree_cluster tree_cluster min_id [] = tree_cluster"
| "fill_tree_cluster tree_cluster min_id ((axis_points, tid) # rest) =
     (let num_points = length axis_points
      in fill_tree_cluster (slice_fill tree_cluster min_id (min_id + num_points) tid)
           (min_id + num_points) rest)"

record approx_state =
  a_detected_trees :: "tree_row list"
  a_id_valid :: nat
  a_id_progress :: nat
  axes_points_list :: "vec3 list list"
  valid_tree_ids :: "real list"

text \<open>Lines 423-432: the sample points of one axis.\<close>

definition sample_axis :: "real \<Rightarrow> vec3 \<Rightarrow> vec3 \<Rightarrow> tree_row \<Rightarrow> error + vec3 list" where
  "sample_axis SAMPLE_STEP bb_max bb_min row =
     and_then (axis_bb_inter (stem_centroid row) (pca1 row) bb_max bb_min) (\<lambda>lim.
     case lim of (min_point, max_point) \<Rightarrow>
       let distance = norm3 (sub3 max_point min_point)
       in and_then (int_of_quotient distance SAMPLE_STEP) (\<lambda>num_samples.
          let point_range = [0..<nat num_samples];
              vector = (if snd (snd (pca1 row)) < 0 then scale3 (- 1) (pca1 row) else pca1 row)
          in Inr (map (\<lambda>k. add3 (scale3 SAMPLE_STEP (scale3 (real k) vector)) min_point)
                    point_range)))"

definition approx_body ::
  "(vec3 list \<Rightarrow> error + pca) \<Rightarrow> real \<Rightarrow> vec3 \<Rightarrow> vec3 \<Rightarrow> 'w hook option \<Rightarrow> nat \<Rightarrow>
   real \<Rightarrow> approx_state \<times> axes_args \<times> 'w \<Rightarrow> error + approx_state \<times> axes_args \<times> 'w" where
  "approx_body pca_fit SAMPLE_STEP bb_max bb_min progress_hook n_values i s =
     (case s of (st, A, w) \<Rightarrow>
      and_then (fit_stem pca_fit A i) (\<lambda>r. case r of
        Some (row, pca_out) \<Rightarrow>
          and_then (sample_axis SAMPLE_STEP bb_max bb_min row) (\<lambda>axis_points.
          let st' = st\<lparr>a_detected_trees := (a_detected_trees st)[a_id_valid st := row],
                      axes_points_list := axes_points_list st @ [axis_points],
                      valid_tree_ids := valid_tree_ids st @ [i],
                      a_id_valid := a_id_valid st + 1,
                      a_id_progress := a_id_progress st + 1\<rparr>
          in and_then (call_hook progress_hook (a_id_progress st') n_values (A, w)) (\<lambda>Aw.
               Inr (st', Aw)))
      | None \<Rightarrow>
          let st' = st\<lparr>a_id_progress := a_id_progress st + 1\<rparr>
          in and_then (call_hook progress_hook (a_id_progress st') n_values (A, w)) (\<lambda>Aw.
               Inr (st', Aw))))"

definition approx_init :: "nat \<Rightarrow> approx_state" where
  "approx_init n_values =
     \<lparr>a_detected_trees = replicate n_values zero_row, a_id_valid = 0, a_id_progress = 0,
      axes_points_list = [], valid_tree_ids = []\<rparr>"

text \<open>\<^verbatim>\<open>np.concatenate\<close> needs at least one array.\<close>
definition np_concatenate :: "'a list list \<Rightarrow> error + 'a list" where
  "np_concatenate arrays = (if arrays = [] then Inl ValueError else Inr (concat arrays))"

text \<open>Lines 449-465: the nearest sample of every point and the two returned vectors.\<close>

definition assign_nearest ::
  "axes_args \<Rightarrow> vec3 list list \<Rightarrow> real list \<Rightarrow> error + real list \<times> real list" where
  "assign_nearest A axes_points tree_ids =
     and_then (np_concatenate axes_points) (\<lambda>axes_cloud.
     and_then (xyz_columns (voxelated_cloud A) (X_field A) (Y_field A) (Z_field A)) (\<lambda>pts.
     let answers = map (kdtree_query axes_cloud) pts;
         indexes = map snd answers;
         dists = map (clamp_dist (d_max A) \<circ> fst) answers;
         tree_cluster = fill_tree_cluster (replicate (length (voxelated_cloud A)) 0) 0
                          (zip axes_points tree_ids)
     in and_then (map_result (\<lambda>k. py_index tree_cluster (int k)) indexes) (\<lambda>tidv.
          Inr (dists, masked_fill tidv (map (\<lambda>d. d_max A < d) dists) NO_ID))))"

definition compute_axes_approximate ::
  "(vec3 list \<Rightarrow> error + pca) \<Rightarrow> axes_args \<Rightarrow> real \<Rightarrow> 'w hook option \<Rightarrow> 'w \<Rightarrow>
   error + (tree_row list \<times> real list \<times> real list) \<times> 'w" where
  "compute_axes_approximate pca_fit A voxel_resolution progress_hook w =
     (let SAMPLE_STEP = voxel_resolution
      in and_then (filt_unique_values A) (\<lambda>filt.
         let n_values = length filt
         in and_then (xyz_columns (voxelated_cloud A) (X_field A) (Y_field A) (Z_field A)) (\<lambda>pts.
            and_then (min3 pts) (\<lambda>bb_min.
            and_then (max3 pts) (\<lambda>bb_max.
            and_then (call_hook progress_hook 0 n_values (A, w)) (\<lambda>Aw.
            and_then (for_each (approx_body pca_fit SAMPLE_STEP bb_max bb_min
                                  progress_hook n_values) filt (approx_init n_values, Aw)) (\<lambda>s.
               case s of (st, A', w') \<Rightarrow>
                 and_then (assign_nearest A' (axes_points_list st) (valid_tree_ids st)) (\<lambda>r.
                 case r of (dists, tidv) \<Rightarrow>
                   Inr ((filter (\<lambda>r. r \<noteq> zero_row) (a_detected_trees st), dists, tidv),
                        w')))))))))"

subsection \<open>\<^verbatim>\<open>compute_heights\<close>\<close>

text \<open>
  The arguments of \<^verbatim>\<open>compute_heights\<close>. \<^verbatim>\<open>voxelate\<close> (of this package's voxel module)
  and \<^verbatim>\<open>DBSCAN\<close> are parameters of the model: \<open>voxelate cloud resolution_z resolution_xy
  n_digits X Y Z\<close> gives the voxelated cloud and the index of each point's voxel, and
  \<open>dbscan eps min_samples data\<close> the cluster label of each row.
\<close>

record heights_args =
  h_voxelated_cloud :: "real list list"
  h_detected_trees :: "tree_row list"
  h_dist_to_axis :: "real list"
  h_tree_id_vector :: "real list"
  d :: real
  max_dev :: real
  resolution_heights :: real
  n_digits :: int
  h_X_field :: int
  h_Y_field :: int
  h_Z_field :: int

type_synonym voxelate_fn =
  "real list list \<Rightarrow> real \<Rightarrow> real \<Rightarrow> int \<Rightarrow> int \<Rightarrow> int \<Rightarrow> int \<Rightarrow> error + real list list \<times> int list"

type_synonym dbscan_fn = "real \<Rightarrow> nat \<Rightarrow> real list list \<Rightarrow> error + int list"

text \<open>\<^verbatim>\<open>np.append(arr, np.expand_dims(col, axis=1), axis=1)\<close>: the row counts must agree.\<close>
definition append_column :: "real list list \<Rightarrow> real list \<Rightarrow> error + real list list" where
  "append_column arr col =
     (if length col = length arr then Inr (map2 (\<lambda>r v. r @ [v]) arr col) else Inl ValueError)"

text \<open>\<^verbatim>\<open>arr[mask, :]\<close>: a boolean mask of another length is an \<^verbatim>\<open>IndexError\<close>.\<close>
definition boolean_rows :: "'a list \<Rightarrow> bool list \<Rightarrow> error + 'a list" where
  "boolean_rows arr msk =
     (if length msk = length arr then Inr (boolean_index arr msk) else Inl IndexError)"

text \<open>\<^verbatim>\<open>cluster_id[(K > 3) & (cluster_id != -1)]\<close>\<close>
definition large_clusters :: "int list \<Rightarrow> int list" where
  "large_clusters labels =
     filter (\<lambda>c. 3 < count_list labels c \<and> c \<noteq> - 1) (sort (remdups labels))"

text \<open>\<^verbatim>\<open>np.argmax\<close>: the first index of the maximum, \<^verbatim>\<open>ValueError\<close> on an empty vector.\<close>
fun argmax_from :: "real \<Rightarrow> nat \<Rightarrow> nat \<Rightarrow> real list \<Rightarrow> nat" where
  "argmax_from best kbest k [] = kbest"
| "argmax_from best kbest k (x # xs) =
     (if best < x then argmax_from x k (Suc k) xs else argmax_from best kbest (Suc k) xs)"

definition np_argmax :: "real list \<Rightarrow> error + nat" where
  "np_argmax xs = (case xs of [] \<Rightarrow> Inl ValueError | x # ys \<Rightarrow> Inr (argmax_from x 0 1 ys))"

text \<open>Lines 538-577: the points that survive the two filters, each row extended by its
  cluster label and its tree id.\<close>

definition heights_filter :: "voxelate_fn \<Rightarrow> dbscan_fn \<Rightarrow> heights_args \<Rightarrow> error + real list list" where
  "heights_filter voxelate dbscan H =
     and_then (voxelate (h_voxelated_cloud H) (resolution_heights H) (resolution_heights H)
                 (n_digits H) (h_X_field H) (h_Y_field H) (h_Z_field H)) (\<lambda>vox.
     case vox of (large_voxels_cloud, large_vox_to_cloud_ind) \<Rightarrow>
     let eps_heights = resolution_heights H * (19 / 10)
     in and_then (dbscan eps_heights 2 large_voxels_cloud) (\<lambda>labels.
        and_then (map_result (py_index labels) large_vox_to_cloud_ind) (\<lambda>point_labels.
        and_then (append_column (h_voxelated_cloud H) (map real_of_int point_labels)) (\<lambda>cloud1.
        and_then (append_column cloud1 (h_tree_id_vector H)) (\<lambda>cloud2.
        and_then (boolean_rows cloud2 (map (\<lambda>x. x < d H) (h_dist_to_axis H))) (\<lambda>cloud3.
        and_then (column cloud3 (- 2)) (\<lambda>labs.
          Inr (boolean_index cloud3
                 (map (\<lambda>l. l \<in> real_of_int ` set (large_clusters labels)) labs)))))))))"

text \<open>\<^verbatim>\<open>voxelated_cloud[voxelated_cloud[:, -1] == valid_id, 0:3]\<close>\<close>
definition single_tree :: "real list list \<Rightarrow> real \<Rightarrow> error + real list list" where
  "single_tree cloud valid_id =
     and_then (column cloud (- 1)) (\<lambda>tids.
       Inr (map (take 3) (boolean_index cloud (map (\<lambda>t. t = valid_id) tids))))"

text \<open>Lines 585-596: the row of \<^verbatim>\<open>tree_heights\<close> of one detected tree.\<close>

definition tree_height :: "real list list \<Rightarrow> real \<Rightarrow> tree_row \<Rightarrow> error + real list" where
  "tree_height cloud maxdev row =
     (let valid_id = tree_id row
      in and_then (single_tree cloud valid_id) (\<lambda>st.
         and_then (column st 2) (\<lambda>zs.
         and_then (np_argmax zs) (\<lambda>which_z_max.
         let highest_point = st ! which_z_max
         in Inr (highest_point @
                 [highest_point ! 2 - height_diff row,
                  if np_greater (deviation row) maxdev then 0 else 1])))))"

definition compute_heights :: "voxelate_fn \<Rightarrow> dbscan_fn \<Rightarrow> heights_args \<Rightarrow> error + real list list" where
  "compute_heights voxelate dbscan H =
     and_then (heights_filter voxelate dbscan H) (\<lambda>cloud.
       map_result (tree_height cloud (max_dev H)) (h_detected_trees H))"

section \<open>The nearest valid axis\<close>

text \<open>
  The valid axes met while the loop of \<^verbatim>\<open>compute_axes_exact\<close> runs over \<open>ids\<close>, in the
  order of \<open>ids\<close>: the id of every accepted stem with the distances of all points of the
  cloud to its axis (\<open>stem_axis\<close>). The candidates of point \<open>j\<close> are the pairs (distance
  of \<open>j\<close> to the axis, id of the axis), in the same order.
\<close>

definition valid_axes ::
  "(vec3 list \<Rightarrow> error + pca) \<Rightarrow> axes_args \<Rightarrow> real list \<Rightarrow> (real \<times> real list) list" where
  "valid_axes pca_fit A ids =
     concat (map (\<lambda>i. case stem_axis pca_fit A i of
                          Inr (Some (row, axis_dist)) \<Rightarrow> [(i, axis_dist)]
                        | _ \<Rightarrow> []) ids)"

definition candidate_list ::
  "(vec3 list \<Rightarrow> error + pca) \<Rightarrow> axes_args \<Rightarrow> real list \<Rightarrow> nat \<Rightarrow> (real \<times> real) list" where
  "candidate_list pca_fit A ids j =
     map (\<lambda>(i, axis_dist). (axis_dist ! j, i)) (valid_axes pca_fit A ids)"

text \<open>
  The pair (distance, tree id) of a point with the candidates \<open>cs\<close>: when the least
  distance is below \<open>dmax\<close> and below the sentinel, the first candidate at the least
  distance; the two sentinels otherwise.
\<close>

definition first_nearest :: "real \<Rightarrow> (real \<times> real) list \<Rightarrow> real \<times> real" where
  "first_nearest dmax cs =
     (if cs \<noteq> [] \<and> Min (fst ` set cs) < dmax \<and> Min (fst ` set cs) < 100000
      then hd (filter (\<lambda>c. fst c = Min (fst ` set cs)) cs)
      else (100000, 100000))"

text \<open>
  The candidates at the least distance, when it is below \<open>dmax\<close> and below the sentinel, all
  bear one tree id.
\<close>

definition one_nearest :: "real \<Rightarrow> (real \<times> real) list \<Rightarrow> bool" where
  "one_nearest dmax cs \<longleftrightarrow>
     (\<forall>c\<in>set cs. \<forall>c'\<in>set cs.
        fst c = Min (fst ` set cs) \<longrightarrow> fst c' = Min (fst ` set cs) \<longrightarrow>
        Min (fst ` set cs) < dmax \<longrightarrow> Min (fst ` set cs) < 100000 \<longrightarrow> snd c = snd c')"

text \<open>Invariants of the loop of each strategy.\<close>

definition assigned ::
  "(vec3 list \<Rightarrow> error + pca) \<Rightarrow> axes_args \<Rightarrow> real list \<Rightarrow> exact_state \<Rightarrow> bool" where
  "assigned pca_fit A ids st \<longleftrightarrow>
     length (dist_to_axis st) = length (voxelated_cloud A) \<and>
     length (tree_id_vector st) = length (voxelated_cloud A) \<and>
     (\<forall>j<length (voxelated_cloud A).
        (dist_to_axis st ! j, tree_id_vector st ! j) =
          first_nearest (d_max A) (candidate_list pca_fit A ids j))"

definition recorded ::
  "(vec3 list \<Rightarrow> error + pca) \<Rightarrow> axes_args \<Rightarrow> nat \<Rightarrow> real list \<Rightarrow> exact_state \<Rightarrow> bool" where
  "recorded pca_fit A n ids st \<longleftrightarrow>
     id_valid st \<le> length ids \<and> length (detected_trees st) = n \<and>
     (\<forall>k\<in>set ids. \<exists>r. stem_axis pca_fit A k = Inr r) \<and>
     (\<forall>k\<in>set ids. \<forall>row a. stem_axis pca_fit A k = Inr (Some (row, a)) \<longrightarrow>
        row \<in> set (take (id_valid st) (detected_trees st)))"

definition sampled :: "nat \<Rightarrow> approx_state \<Rightarrow> bool" where
  "sampled n st \<longleftrightarrow>
     a_id_valid st = length (axes_points_list st) \<and> length (a_detected_trees st) = n \<and>
     (\<forall>k<a_id_valid st. k < n \<longrightarrow> a_detected_trees st ! k \<noteq> zero_row)"

section \<open>Concrete inputs\<close>

text \<open>
  A stem of four points on the vertical line through the origin, cluster 7, in the
  canonical layout \<open>[x, y, z, z0, id]\<close>; its PCA has the first component \<open>(0, 0, 1)\<close>
  and the centroid as mean. \<open>upright_pca\<close> is that fit, for every stem whose points lie
  on a vertical line. \<open>two_stems\<close> adds cluster 8, on the vertical line through
  \<open>(2, 0, 0)\<close>; \<open>two_stems_swapped\<close> is the same stripe with the two ids exchanged.
\<close>

definition upright_pca :: "vec3 list \<Rightarrow> error + pca" where
  "upright_pca stem = Inr \<lparr>components_0 = (0, 0, 1), components_1 = (1, 0, 0),
                           components_2 = (0, 1, 0), pca_mean = mean3 stem\<rparr>"

definition stem7 :: "real list list" where
  "stem7 = [[0, 0, 0, 0, 7], [0, 0, 1, 1, 7], [0, 0, 2, 2, 7], [0, 0, 3, 3, 7]]"

definition two_stems :: "real list list" where
  "two_stems = stem7 @ [[2, 0, 0, 0, 8], [2, 0, 1, 1, 8], [2, 0, 2, 2, 8], [2, 0, 3, 3, 8]]"

definition two_stems_swapped :: "real list list" where
  "two_stems_swapped =
     [[0, 0, 0, 0, 8], [0, 0, 1, 1, 8], [0, 0, 2, 2, 8], [0, 0, 3, 3, 8],
      [2, 0, 0, 0, 7], [2, 0, 1, 1, 7], [2, 0, 2, 2, 7], [2, 0, 3, 3, 7]]"

text \<open>
  A stem whose first principal component is horizontal: its points spread by 20 along
  \<open>x\<close> and by 2 along \<open>z\<close>, without correlation, so the components are the \<open>x\<close>, \<open>z\<close> and
  \<open>y\<close> directions, which \<open>flat_pca\<close> returns.
\<close>

definition flat_stem :: "real list list" where
  "flat_stem = [[- 10, 0, 0, 0, 7], [10, 0, 0, 0, 7], [0, 0, 1, 1, 7], [0, 0, - 1, - 1, 7]]"

definition flat_pca :: "vec3 list \<Rightarrow> error + pca" where
  "flat_pca stem = Inr \<lparr>components_0 = (1, 0, 0), components_1 = (0, 0, 1),
                         components_2 = (0, 1, 0), pca_mean = mean3 stem\<rparr>"

text \<open>The canonical layout, with a stripe of height 1 (\<open>h_range_value = 1\<close>).\<close>

definition canonical :: "real list list \<Rightarrow> real list list \<Rightarrow> int \<Rightarrow> real \<Rightarrow> axes_args" where
  "canonical cloud stripe minp dmax =
     \<lparr>voxelated_cloud = cloud, clust_stripe = stripe,
      stripe_lower_limit = 0, stripe_upper_limit = 1, h_range = 1, min_points = minp,
      d_max = dmax, X_field = 0, Y_field = 1, Z_field = 2, Z0_field = 3, tree_id_field = - 1\<rparr>"

text \<open>The layout \<open>[z, x, y, z0, id]\<close>.\<close>

definition z_first :: "real list list \<Rightarrow> real list list \<Rightarrow> int \<Rightarrow> real \<Rightarrow> axes_args" where
  "z_first cloud stripe minp dmax =
     \<lparr>voxelated_cloud = cloud, clust_stripe = stripe,
      stripe_lower_limit = 0, stripe_upper_limit = 1, h_range = 1, min_points = minp,
      d_max = dmax, X_field = 1, Y_field = 2, Z_field = 0, Z0_field = 3, tree_id_field = - 1\<rparr>"

text \<open>
  Three progress hooks. \<open>log_progress\<close> records its calls and touches nothing else.
  \<open>flatten_after_first\<close> is \<^verbatim>\<open>def hook(k, n): if k == 1: clust_stripe[:, 2] = 0\<close>, for a
  caller that holds \<^verbatim>\<open>clust_stripe\<close>: after the first stem it sets the third column of the
  stripe to zero. \<open>raising_hook\<close> is \<^verbatim>\<open>def hook(k, n): raise RuntimeError\<close>.
\<close>

definition log_progress :: "(nat \<times> nat) list hook" where
  "log_progress k n aw = Inr (fst aw, snd aw @ [(k, n)])"

definition flatten_after_first :: "unit hook" where
  "flatten_after_first k n aw =
     Inr ((fst (fst aw),
           if k = 1 then map (\<lambda>r. r[2 := 0]) (snd (fst aw)) else snd (fst aw)), snd aw)"

definition raising_hook :: "unit hook" where
  "raising_hook k n aw = Inl RuntimeError"

text \<open>
  For \<^verbatim>\<open>compute_heights\<close>: a voxelization that keeps every point as its own voxel, a
  clustering that puts all voxels in cluster 0, a tree row with a given id and deviation,
  and a call with the default thresholds.
\<close>

definition unit_voxelate :: voxelate_fn where
  "unit_voxelate cloud rz rxy nd X Y Z = Inr (cloud, map int [0..<length cloud])"

definition one_cluster :: dbscan_fn where
  "one_cluster eps min_samples data = Inr (replicate (length data) 0)"

definition tree_of :: "real \<Rightarrow> npfloat \<Rightarrow> tree_row" where
  "tree_of i dev = \<lparr>tree_id = i, pca1 = (0, 0, 1), stem_centroid = (0, 0, 1),
                    height_diff = 1 / 2, deviation = dev\<rparr>"

definition heights_input :: "real list list \<Rightarrow> real list \<Rightarrow> tree_row list \<Rightarrow> heights_args" where
  "heights_input cloud tids trees =
     \<lparr>h_voxelated_cloud = cloud, h_detected_trees = trees,
      h_dist_to_axis = replicate (length cloud) 0, h_tree_id_vector = tids,
      d = 15, max_dev = 25, resolution_heights = 3 / 10, n_digits = 5,
      h_X_field = 0, h_Y_field = 1, h_Z_field = 2\<rparr>"

definition four_points :: "real list list" where
  "four_points = [[0, 0, 1, 1], [0, 0, 5, 5], [4, 0, 2, 2], [4, 0, 3, 3]]"

section \<open>Evaluation and basic lemmas\<close>

lemmas numpy_defs [no_atp] =
  np_divide_def np_hypot_def dot3_def sub3_def add3_def scale3_def norm3_def
  np_ptp_def np_min_def np_max_def np_mean_def mean3_def np_unique_def np_counts_def
  masked_fill_def masked_copy_def boolean_index_def vec3_index_def pair_columns_def
  xyz_columns_def column_def py_index_def and_then_def Let_def upt_conv_Cons

lemmas stem_defs [no_atp] =
  fit_stem_def filt_unique_values_def h_range_value_def deviation_angle_def call_hook_def
  pca_transform_def zero_row_def

lemmas exact_defs [no_atp] =
  compute_axes_exact_def exact_loop_def exact_body_def exact_init_def stem_axis_def
  valid_points_of_def

lemmas approx_defs [no_atp] =
  compute_axes_approximate_def assign_nearest_def np_concatenate_def approx_init_def
  approx_body_def sample_axis_def slice_fill_def clamp_dist_def kdtree_query_def dist_sq_def
  max3_def min3_def int_of_quotient_def axis_bb_inter_def vector_plane_intersection_def
  EPS_def NO_ID_def

lemmas heights_defs [no_atp] =
  compute_heights_def tree_height_def single_tree_def heights_filter_def np_argmax_def
  large_clusters_def boolean_rows_def append_column_def

lemmas input_defs [no_atp] =
  canonical_def z_first_def stem7_def two_stems_def flat_stem_def upright_pca_def flat_pca_def
  log_progress_def flatten_after_first_def unit_voxelate_def one_cluster_def tree_of_def heights_input_def
  four_points_def

lemma and_then_Inr_iff: "and_then m f = Inr y \<longleftrightarrow> (\<exists>x. m = Inr x \<and> f x = Inr y)"
  by (cases m) (simp_all add: and_then_def)

lemma map_result_Inr:
  "map_result f xs = Inr ys \<Longrightarrow>
   length ys = length xs \<and> (\<forall>i<length xs. f (xs ! i) = Inr (ys ! i))"
proof (induction xs arbitrary: ys)
  case Nil
  then show ?case by simp
next
  case (Cons x xs)
  from Cons.prems obtain y zs
    where y: "f x = Inr y" and zs: "map_result f xs = Inr zs" and ys: "ys = y # zs"
    by (auto simp: and_then_Inr_iff)
  from Cons.IH[OF zs] y ys show ?case
    by (auto simp: nth_Cons split: nat.splits)
qed

lemma map_result_Inl:
  assumes "x \<in> set xs" and "f x = Inl e"
  shows "\<exists>e'. map_result f xs = Inl e'"
  using assms
proof (induction xs)
  case Nil
  then show ?case by simp
next
  case (Cons y ys)
  show ?case
  proof (cases "f y")
    case (Inl e1)
    then show ?thesis by (simp add: and_then_def)
  next
    case (Inr v)
    with Cons have "x \<in> set ys" by auto
    from Cons.IH[OF this Cons.prems(2)] obtain e' where "map_result f ys = Inl e'" by blast
    with Inr show ?thesis by (simp add: and_then_def)
  qed
qed

text \<open>A property of the state that every iteration preserves holds when the loop returns.\<close>

lemma for_each_invariant:
  assumes "for_each body xs s = Inr s'" and "I s"
    and "\<And>x t t'. x \<in> set xs \<Longrightarrow> I t \<Longrightarrow> body x t = Inr t' \<Longrightarrow> I t'"
  shows "I s'"
  using assms
proof (induction xs arbitrary: s)
  case Nil
  then show ?case by simp
next
  case (Cons x xs)
  from Cons.prems(1) obtain t where t: "body x s = Inr t" and rest: "for_each body xs t = Inr s'"
    by (auto simp: and_then_Inr_iff)
  have "I t" using Cons.prems(3)[of x s t] Cons.prems(2) t by simp
  show ?case
  proof (rule Cons.IH[OF rest \<open>I t\<close>])
    fix y u u' assume "y \<in> set xs" "I u" "body y u = Inr u'"
    then show "I u'" using Cons.prems(3)[of y u u'] by simp
  qed
qed

lemma for_each_append:
  "for_each body (xs @ ys) s = and_then (for_each body xs s) (for_each body ys)"
  by (induction xs arbitrary: s) (auto simp: and_then_def split: sum.splits)

text \<open>
  Two loop bodies that agree on the local variables and on the arguments, whatever the
  state of the hook, give runs of the loop that agree on them.
\<close>

lemma for_each_simulation:
  assumes "\<And>x st A w w2. map_sum id (\<lambda>s. (fst s, fst (snd s))) (b1 x (st, A, w)) =
                            map_sum id (\<lambda>s. (fst s, fst (snd s))) (b2 x (st, A, w2))"
  shows "map_sum id (\<lambda>s. (fst s, fst (snd s))) (for_each b1 xs (st, A, w)) =
         map_sum id (\<lambda>s. (fst s, fst (snd s))) (for_each b2 xs (st, A, w2))"
proof (induction xs arbitrary: st A w w2)
  case Nil
  then show ?case by simp
next
  case (Cons x xs)
  show ?case
  proof (cases "b1 x (st, A, w)")
    case (Inl e)
    with assms[of x st A w w2] have "b2 x (st, A, w2) = Inl e"
      by (cases "b2 x (st, A, w2)") auto
    with Inl show ?thesis by (simp add: and_then_def)
  next
    case (Inr t)
    obtain st1 A1 w1 where t: "t = (st1, A1, w1)" by (cases t)
    with Inr assms[of x st A w w2] obtain w3 where "b2 x (st, A, w2) = Inr (st1, A1, w3)"
      by (cases "b2 x (st, A, w2)") auto
    with Inr t Cons.IH[of st1 A1 w1 w3] show ?thesis by (simp add: and_then_def)
  qed
qed

text \<open>
  With an invariant of the state: the loop returns if every iteration does, and it returns
  only if every iteration does.
\<close>

lemma for_each_total:
  assumes "I s"
    and "\<And>x t. x \<in> set xs \<Longrightarrow> I t \<Longrightarrow> \<exists>t'. body x t = Inr t' \<and> I t'"
  shows "\<exists>s'. for_each body xs s = Inr s'"
  using assms
proof (induction xs arbitrary: s)
  case Nil
  then show ?case by simp
next
  case (Cons y ys)
  from Cons.prems(2)[of y s] Cons.prems(1) obtain t where t: "body y s = Inr t" "I t" by auto
  have "\<exists>s'. for_each body ys t = Inr s'"
    by (rule Cons.IH[OF t(2)]) (use Cons.prems(2) in auto)
  with t show ?case by (simp add: and_then_def)
qed

lemma for_each_Inr_body:
  assumes "for_each body xs s = Inr s'" and "I s"
    and "\<And>y t t'. I t \<Longrightarrow> body y t = Inr t' \<Longrightarrow> I t'"
    and "x \<in> set xs"
  shows "\<exists>t t'. I t \<and> body x t = Inr t'"
  using assms(1,2,4)
proof (induction xs arbitrary: s)
  case Nil
  then show ?case by simp
next
  case (Cons y ys)
  from Cons.prems(1) obtain t where t: "body y s = Inr t" and rest: "for_each body ys t = Inr s'"
    by (auto simp: and_then_Inr_iff)
  show ?case
  proof (cases "x = y")
    case True
    with t Cons.prems(2) show ?thesis by blast
  next
    case False
    with Cons.prems(3) have "x \<in> set ys" by simp
    from Cons.IH[OF rest assms(3)[OF Cons.prems(2) t] this] show ?thesis .
  qed
qed

text \<open>The call of a hook.\<close>

lemma call_hook_None [simp]: "call_hook None k n Aw = Inr Aw"
  by (simp add: call_hook_def)

lemma call_hook_keeps:
  assumes "keeps_arrays hook" and "call_hook hook k n (A, w) = Inr (A', w')"
  shows "A' = A"
proof (cases hook)
  case None
  with assms(2) show ?thesis by simp
next
  case (Some h)
  with assms(2) obtain r where r: "h k n ((voxelated_cloud A, clust_stripe A), w) = Inr r"
    and A': "A' = A\<lparr>voxelated_cloud := fst (fst r), clust_stripe := snd (fst r)\<rparr>"
    by (auto simp: call_hook_def and_then_Inr_iff)
  from assms(1) Some r have "fst r = (voxelated_cloud A, clust_stripe A)"
    unfolding keeps_arrays_def by blast
  with A' show ?thesis by simp
qed

lemma call_hook_returns:
  assumes "keeps_arrays hook" and "returns_normally hook"
  shows "\<exists>w'. call_hook hook k n (A, w) = Inr (A, w')"
proof (cases hook)
  case None
  then show ?thesis by simp
next
  case (Some h)
  with assms(2) obtain r where r: "h k n ((voxelated_cloud A, clust_stripe A), w) = Inr r"
    unfolding returns_normally_def by blast
  with assms(1) Some have "fst r = (voxelated_cloud A, clust_stripe A)"
    unfolding keeps_arrays_def by blast
  with Some r show ?thesis by (simp add: call_hook_def and_then_def)
qed

lemma keeps_arrays_None [simp]: "keeps_arrays None"
  by (simp add: keeps_arrays_def)

lemma returns_normally_None [simp]: "returns_normally None"
  by (simp add: returns_normally_def)

lemma fit_stem_row:
  assumes "fit_stem pca_fit A i = Inr (Some (row, p))"
  shows "pca1 row = components_0 p \<and> deviation row = deviation_angle (pca1 row) \<and> tree_id row = i"
  using assms
  by (auto simp: fit_stem_def and_then_Inr_iff Let_def split: if_splits)

lemma stem_axis_Some:
  assumes "stem_axis pca_fit A i = Inr (Some (row, a))"
  shows "\<exists>p. fit_stem pca_fit A i = Inr (Some (row, p))"
    and "length a = length (voxelated_cloud A)"
  using assms
  by (auto simp: stem_axis_def and_then_Inr_iff xyz_columns_def Let_def
           dest!: map_result_Inr split: option.splits)

text \<open>An axis that is sampled is not parallel to the bounding planes.\<close>

lemma sample_axis_Inr:
  assumes "sample_axis step bb_max bb_min row = Inr pts"
  shows "snd (snd (pca1 row)) \<noteq> 0"
proof
  assume z: "snd (snd (pca1 row)) = 0"
  obtain x y z where p: "pca1 row = (x, y, z)" by (cases "pca1 row")
  with z have "vector_plane_intersection (stem_centroid row) (pca1 row) bb_max (0, 0, - 1) = None"
    by (simp add: vector_plane_intersection_def dot3_def EPS_def)
  then have "sample_axis step bb_max bb_min row = Inl RuntimeError"
    by (simp add: sample_axis_def axis_bb_inter_def and_then_def)
  with assms show False by simp
qed

text \<open>
  The scan returns a nearest sample, with its distance; this is all that scipy promises of
  \<^verbatim>\<open>query\<close>.
\<close>

lemma nearest_from_least:
  assumes "kb < length pre" and "fst best = dist_sq p (pre ! kb)" and "snd best = kb"
    and "\<forall>s\<in>set pre. fst best \<le> dist_sq p s" and "k = length pre"
    and "nearest_from p best k ss = (d2, k')"
  shows "k' < length (pre @ ss) \<and> d2 = dist_sq p ((pre @ ss) ! k') \<and>
         (\<forall>s\<in>set (pre @ ss). d2 \<le> dist_sq p s)"
  using assms
proof (induction ss arbitrary: pre best kb k)
  case Nil
  then show ?case by auto
next
  case (Cons s ss)
  let ?best = "if dist_sq p s < fst best then (dist_sq p s, k) else best"
  let ?kb = "if dist_sq p s < fst best then k else kb"
  have run: "nearest_from p ?best (Suc k) ss = (d2, k')" using Cons.prems(6) by simp
  have 1: "?kb < length (pre @ [s])" using Cons.prems(1,5) by auto
  have 2: "fst ?best = dist_sq p ((pre @ [s]) ! ?kb)"
    using Cons.prems(1,2,5) by (auto simp: nth_append)
  have 3: "snd ?best = ?kb" using Cons.prems(3) by auto
  have 4: "\<forall>t\<in>set (pre @ [s]). fst ?best \<le> dist_sq p t"
    using Cons.prems(4) by (auto simp: not_less)
  have 5: "Suc k = length (pre @ [s])" using Cons.prems(5) by simp
  from Cons.IH[OF 1 2 3 4 5 run] show ?case by auto
qed

lemma kdtree_query_nearest:
  assumes "kdtree_query data p = (Some r, k)"
  shows "k < length data \<and> r = sqrt (dist_sq p (data ! k)) \<and>
         (\<forall>s\<in>set data. dist_sq p (data ! k) \<le> dist_sq p s)"
proof (cases data)
  case Nil
  with assms show ?thesis by (simp add: kdtree_query_def)
next
  case (Cons s ss)
  obtain d2 k' where n: "nearest_from p (dist_sq p s, 0) 1 ss = (d2, k')"
    by (cases "nearest_from p (dist_sq p s, 0) 1 ss")
  with assms Cons have d: "r = sqrt d2" and k: "k = k'" by (simp_all add: kdtree_query_def)
  have "k' < length ([s] @ ss) \<and> d2 = dist_sq p (([s] @ ss) ! k') \<and>
        (\<forall>t\<in>set ([s] @ ss). d2 \<le> dist_sq p t)"
    by (rule nearest_from_least[of 0 "[s]" "(dist_sq p s, 0)" p 1 ss d2 k']) (use n in simp_all)
  then have "k' < length (s # ss)" "d2 = dist_sq p ((s # ss) ! k')"
    "\<forall>t\<in>set (s # ss). dist_sq p ((s # ss) ! k') \<le> dist_sq p t" by auto
  with Cons d k show ?thesis by blast
qed

section \<open>The sentinel of the approximate strategy\<close>

text \<open>
  On the cloud below the exact strategy leaves the second point, nine units from the
  axis, unassigned: both of its entries keep the sentinel.
\<close>

lemma exact_far_point_unassigned:
  "compute_axes_exact upright_pca
     (canonical [[0, 0, 0, 0], [9, 0, 1, 1], [0, 0, 2, 2]] stem7 3 2) None () =
   Inr (([\<lparr>tree_id = 7, pca1 = (0, 0, 1), stem_centroid = (0, 0, 3 / 2), height_diff = 0,
           deviation = Finite 0\<rparr>],
         [0, 100000, 0], [7, 100000, 7]), ())"
  by (simp add: numpy_defs stem_defs exact_defs input_defs)

text \<open>
  C1 (the code departs from the claim). The claim: a point's \<^verbatim>\<open>tree_id\<close> is the sentinel
  100000 exactly when its \<^verbatim>\<open>distance_to_axis\<close> is the sentinel or at least \<^verbatim>\<open>d_max\<close>, and
  in the approximate strategy a point whose nearest sample is farther than \<^verbatim>\<open>d_max\<close>
  gets the sentinel id. In \<^verbatim>\<open>compute_axes_approximate\<close> the distances are clamped to
  \<^verbatim>\<open>d_max\<close> (line 454) before the mask \<^verbatim>\<open>dist_to_axis > d_max\<close> is taken (line 465), so
  the mask is empty: with \<^verbatim>\<open>d_max = 2\<close>, the second point of the cloud below, nine units
  from its nearest sample, comes back with distance 2 and tree id 7.
\<close>

theorem approximate_far_point_keeps_tree_id:
  "compute_axes_approximate upright_pca
     (canonical [[0, 0, 0, 0], [9, 0, 1, 1], [0, 0, 2, 2]] stem7 3 2) 1 None () =
   Inr (([\<lparr>tree_id = 7, pca1 = (0, 0, 1), stem_centroid = (0, 0, 3 / 2), height_diff = 0,
           deviation = Finite 0\<rparr>],
         [0, 2, 1], [7, 7, 7]), ())"
  by (simp add: numpy_defs stem_defs approx_defs input_defs)

section \<open>No valid stem\<close>

text \<open>
  With no stem of sufficient vertical extent (here one cluster of four coincident
  points) the exact strategy returns no tree and two vectors of sentinels.
\<close>

lemma exact_no_valid_stem:
  "compute_axes_exact upright_pca
     (canonical [[0, 0, 0, 0], [9, 0, 1, 1], [0, 0, 2, 2]]
        [[0, 0, 0, 0, 7], [0, 0, 0, 0, 7], [0, 0, 0, 0, 7], [0, 0, 0, 0, 7]] 3 2) None () =
   Inr (([], [100000, 100000, 100000], [100000, 100000, 100000]), ())"
  by (simp add: numpy_defs stem_defs exact_defs input_defs)

text \<open>
  In general, \<^verbatim>\<open>compute_axes_approximate\<close> never returns an empty \<^verbatim>\<open>detected_trees\<close>: it
  returns only after sampling the axis of at least one accepted stem.
\<close>

lemma approx_body_sampled:
  assumes "approx_body pca_fit step bb_max bb_min hook m i (st, A, w) = Inr (st', A', w')"
    and "sampled n st"
  shows "sampled n st'"
proof -
  from assms(1) obtain r where r: "fit_stem pca_fit A i = Inr r"
    by (auto simp: approx_body_def and_then_Inr_iff)
  show ?thesis
  proof (cases r)
    case None
    with assms r show ?thesis
      by (auto simp: approx_body_def and_then_Inr_iff Let_def sampled_def)
  next
    case (Some rp)
    obtain row p where rp: "rp = (row, p)" by (cases rp)
    from assms(1) r Some rp obtain pts
      where pts: "sample_axis step bb_max bb_min row = Inr pts"
        and dt: "a_detected_trees st' = (a_detected_trees st)[a_id_valid st := row]"
        and ax: "axes_points_list st' = axes_points_list st @ [pts]"
        and iv: "a_id_valid st' = a_id_valid st + 1"
      by (auto simp: approx_body_def and_then_Inr_iff Let_def)
    from sample_axis_Inr[OF pts] have "row \<noteq> zero_row" by (auto simp: zero_row_def)
    then show ?thesis using assms(2) dt ax iv
      by (auto simp: sampled_def nth_list_update less_Suc_eq)
  qed
qed

lemma approximate_returns_a_tree:
  assumes "compute_axes_approximate pca_fit A res hook w = Inr ((dt, dists, tids), w')"
  shows "dt \<noteq> []"
proof -
  from assms obtain filt bb_max bb_min Aw st A' r where
    loop: "for_each (approx_body pca_fit res bb_max bb_min hook (length filt)) filt
             (approx_init (length filt), Aw) = Inr (st, A', w')"
    and nn: "assign_nearest A' (axes_points_list st) (valid_tree_ids st) = Inr r"
    and dt: "dt = filter (\<lambda>r. r \<noteq> zero_row) (a_detected_trees st)"
    by (auto simp: compute_axes_approximate_def and_then_Inr_iff Let_def)
  have "(\<lambda>s. sampled (length filt) (fst s)) (st, A', w')"
    using loop
  proof (rule for_each_invariant)
    show "sampled (length filt) (fst (approx_init (length filt), Aw))"
      by (simp add: approx_init_def sampled_def)
  next
    fix x t t'
    assume "sampled (length filt) (fst t)"
      "approx_body pca_fit res bb_max bb_min hook (length filt) x t = Inr t'"
    then show "sampled (length filt) (fst t')"
      by (cases t; cases t') (auto dest: approx_body_sampled)
  qed
  then have s: "sampled (length filt) st" by simp
  from nn have ne: "axes_points_list st \<noteq> []"
    by (auto simp: assign_nearest_def np_concatenate_def and_then_Inr_iff split: if_splits)
  have "filt \<noteq> []"
  proof
    assume "filt = []"
    with loop have "st = approx_init 0" by simp
    with ne show False by (simp add: approx_init_def)
  qed
  with s ne have "a_detected_trees st ! 0 \<noteq> zero_row" "0 < length (a_detected_trees st)"
    by (auto simp: sampled_def)
  then have "a_detected_trees st ! 0 \<in> set dt" unfolding dt by simp
  then show ?thesis by auto
qed

text \<open>
  C2 (the code departs from the claim). The claim: when no stem cluster passes the
  filters, \<^verbatim>\<open>compute_axes_approximate\<close> returns empty results and does not crash. On the
  same input the list of sampled axes is empty and \<^verbatim>\<open>np.concatenate\<close> (line 449) raises
  \<^verbatim>\<open>ValueError\<close>.
\<close>

theorem approximate_no_valid_stem_raises:
  "compute_axes_approximate upright_pca
     (canonical [[0, 0, 0, 0], [9, 0, 1, 1], [0, 0, 2, 2]]
        [[0, 0, 0, 0, 7], [0, 0, 0, 0, 7], [0, 0, 0, 0, 7], [0, 0, 0, 0, 7]] 3 2) 1 None () =
   Inl ValueError"
  by (simp add: numpy_defs stem_defs approx_defs input_defs)

section \<open>The tags of the pooled samples\<close>

text \<open>
  The five samples of the axis of stem 7 in a cloud whose heights go from 0 to 5, and the
  answer of the index for the point \<open>(1, 0, 5)\<close>: the last sample, within \<^verbatim>\<open>d_max = 2\<close>.
\<close>

lemma nearest_sample_of_top_point:
  "kdtree_query [(0, 0, 0), (0, 0, 1), (0, 0, 2), (0, 0, 3), (0, 0, 4)] (1, 0, 5) =
   (Some (sqrt 2), 4)"
  by (simp add: kdtree_query_def dist_sq_def dot3_def sub3_def)

text \<open>
  C3 (the code departs from the claim). The claim: every cloud point within \<^verbatim>\<open>d_max\<close>
  gets the tree id of its nearest pooled sample, also when the samples outnumber the
  points of the cloud. \<^verbatim>\<open>tree_cluster\<close> has one entry per point of the cloud (line 457),
  not one per sample: here the axis is sampled five times (\<open>z = 0, \<dots>, 4\<close>), the cloud
  has three points, the nearest sample of the second point has index 4, and the lookup
  \<^verbatim>\<open>tree_cluster[indexes]\<close> (line 464) raises \<^verbatim>\<open>IndexError\<close>.
\<close>

theorem approximate_more_samples_than_points:
  "compute_axes_approximate upright_pca
     (canonical [[0, 0, 0, 0], [1, 0, 5, 5], [9, 0, 2, 2]] stem7 3 2) 1 None () =
   Inl IndexError"
  by (simp add: numpy_defs stem_defs approx_defs input_defs)

section \<open>The size filter\<close>

lemma boolean_index_map: "boolean_index xs (map p xs) = filter p xs"
  by (induction xs) (simp_all add: boolean_index_def)

text \<open>The filter keeps the cluster ids that occur more than \<^verbatim>\<open>min_points\<close> times.\<close>

lemma size_filter_is_strict:
  assumes "column (clust_stripe A) (tree_id_field A) = Inr ids"
  shows "filt_unique_values A =
           Inr (filter (\<lambda>v. min_points A < int (count_list ids v)) (sort (remdups ids)))"
proof -
  have "map (\<lambda>n. min_points A < int n) (np_counts ids) =
        map (\<lambda>v. min_points A < int (count_list ids v)) (np_unique ids)"
    by (simp add: np_counts_def)
  then show ?thesis
    using assms by (simp add: filt_unique_values_def and_then_def boolean_index_map np_unique_def)
qed

text \<open>
  C4 (the code departs from the claim). The claim: a cluster of at least \<^verbatim>\<open>min_points\<close>
  points, exactly \<^verbatim>\<open>min_points\<close> included, whose vertical extent is sufficient appears
  in \<^verbatim>\<open>detected_trees\<close>. The filter is \<^verbatim>\<open>n > min_points\<close> (lines 96 and 359): with
  \<^verbatim>\<open>min_points = 4\<close>, stem 7, of four points and vertical extent 3 against a required 1,
  is dropped, and only stem 8, of five points, is detected; the points on the axis of
  stem 7 go to tree 8.
\<close>

theorem exactly_min_points_is_filtered_out:
  "filt_unique_values
     (canonical [[0, 0, 0, 0], [9, 0, 1, 1], [2, 0, 2, 2]]
        (stem7 @ [[2, 0, 0, 0, 8], [2, 0, 1, 1, 8], [2, 0, 2, 2, 8], [2, 0, 3, 3, 8],
                  [2, 0, 4, 4, 8]]) 4 3) = Inr [8] \<and>
   compute_axes_exact upright_pca
     (canonical [[0, 0, 0, 0], [9, 0, 1, 1], [2, 0, 2, 2]]
        (stem7 @ [[2, 0, 0, 0, 8], [2, 0, 1, 1, 8], [2, 0, 2, 2, 8], [2, 0, 3, 3, 8],
                  [2, 0, 4, 4, 8]]) 4 3) None () =
   Inr (([\<lparr>tree_id = 8, pca1 = (0, 0, 1), stem_centroid = (2, 0, 2), height_diff = 0,
           deviation = Finite 0\<rparr>],
         [2, 100000, 0], [8, 100000, 8]), ()) \<and>
   compute_axes_approximate upright_pca
     (canonical [[0, 0, 0, 0], [9, 0, 1, 1], [2, 0, 2, 2]]
        (stem7 @ [[2, 0, 0, 0, 8], [2, 0, 1, 1, 8], [2, 0, 2, 2, 8], [2, 0, 3, 3, 8],
                  [2, 0, 4, 4, 8]]) 4 3) 1 None () =
   Inr (([\<lparr>tree_id = 8, pca1 = (0, 0, 1), stem_centroid = (2, 0, 2), height_diff = 0,
           deviation = Finite 0\<rparr>],
         [2, 3, 1], [8, 8, 8]), ())"
  by (simp add: numpy_defs stem_defs exact_defs approx_defs input_defs)

section \<open>The field layout\<close>

text \<open>
  C5 (the code departs from the claim). The claim: with the field indices permuted and
  the clouds permuted accordingly, the results are those of the canonical layout. Two
  places index by position. The test on the vertical extent reads
  \<^verbatim>\<open>stem_i[:, Z_field]\<close> (lines 134 and 402), where \<^verbatim>\<open>stem_i\<close> already is the three
  columns \<open>[x, y, z]\<close>: in the layout \<open>[z, x, y, z0, id]\<close> (\<^verbatim>\<open>Z_field = 0\<close>) it measures
  the extent along \<open>x\<close>, and the vertical stem, accepted in the canonical layout, is
  rejected. \<^verbatim>\<open>compute_heights\<close> takes columns \<^verbatim>\<open>0:3\<close> and the maximum of column 2
  (lines 586-587): in that layout it returns the point of greatest \<open>y\<close>, not the point of
  greatest \<open>z\<close>.
\<close>

theorem field_layout_is_assumed:
  "compute_axes_exact upright_pca
     (canonical [[0, 0, 0, 0], [9, 0, 1, 1], [0, 0, 2, 2]] stem7 3 2) None () =
   Inr (([\<lparr>tree_id = 7, pca1 = (0, 0, 1), stem_centroid = (0, 0, 3 / 2), height_diff = 0,
           deviation = Finite 0\<rparr>],
         [0, 100000, 0], [7, 100000, 7]), ()) \<and>
   compute_axes_exact upright_pca
     (z_first [[0, 0, 0, 0], [1, 9, 0, 1], [2, 0, 0, 2]]
        [[0, 0, 0, 0, 7], [1, 0, 0, 1, 7], [2, 0, 0, 2, 7], [3, 0, 0, 3, 7]] 3 2) None () =
   Inr (([], [100000, 100000, 100000], [100000, 100000, 100000]), ()) \<and>
   compute_heights unit_voxelate one_cluster
     (heights_input [[0, 0, 5, 5], [0, 9, 1, 1], [4, 0, 2, 2], [4, 0, 3, 3]] [7, 7, 8, 8]
        [tree_of 7 (Finite 0)]) =
   Inr [[0, 0, 5, 9 / 2, 1]] \<and>
   compute_heights unit_voxelate one_cluster
     ((heights_input [[5, 0, 0, 5], [1, 0, 9, 1], [2, 4, 0, 2], [3, 4, 0, 3]] [7, 7, 8, 8]
         [tree_of 7 (Finite 0)])\<lparr>h_X_field := 1, h_Y_field := 2, h_Z_field := 0\<rparr>) =
   Inr [[1, 0, 9, 17 / 2, 1]]"
  by (simp add: numpy_defs stem_defs exact_defs heights_defs input_defs)

section \<open>The exact strategy assigns the first nearest axis\<close>

lemma first_nearest_Nil [simp]: "first_nearest dmax [] = (100000, 100000)"
  by (simp add: first_nearest_def)

lemma first_nearest_cases:
  assumes "first_nearest dmax cs = (dj, tj)"
  shows "(dj = 100000 \<and> tj = 100000 \<and> \<not> (cs \<noteq> [] \<and> Min (fst ` set cs) < dmax \<and> Min (fst ` set cs) < 100000)) \<or>
         (cs \<noteq> [] \<and> dj = Min (fst ` set cs) \<and> dj < dmax \<and> dj < 100000 \<and> (dj, tj) \<in> set cs)"
proof (cases "cs \<noteq> [] \<and> Min (fst ` set cs) < dmax \<and> Min (fst ` set cs) < 100000")
  case False
  have "first_nearest dmax cs = (100000, 100000)"
    unfolding first_nearest_def by (rule if_not_P) (use False in blast)
  with assms False show ?thesis by simp
next
  case True
  let ?M = "Min (fst ` set cs)"
  let ?f = "filter (\<lambda>c. fst c = ?M) cs"
  from True have "?M \<in> fst ` set cs" by (intro Min_in) auto
  then have ne: "?f \<noteq> []" by (force simp: filter_empty_conv)
  then have "hd ?f \<in> set ?f" by (rule hd_in_set)
  then have "hd ?f \<in> set cs" "fst (hd ?f) = ?M" by auto
  moreover have "first_nearest dmax cs = hd ?f"
    unfolding first_nearest_def by (rule if_P) (use True in blast)
  with assms have "hd ?f = (dj, tj)" by simp
  ultimately show ?thesis using True by auto
qed

lemma first_nearest_snoc:
  "first_nearest dmax (cs @ [(a, i)]) =
     (if a < dmax \<and> a < fst (first_nearest dmax cs) then (a, i) else first_nearest dmax cs)"
proof (cases "cs = []")
  case True
  then show ?thesis by (simp add: first_nearest_def)
next
  case False
  let ?M = "Min (fst ` set cs)"
  let ?cs' = "cs @ [(a, i)]"
  let ?M' = "Min (fst ` set ?cs')"
  have M': "?M' = min a ?M" using False by simp
  have le: "?M \<le> fst c" if "c \<in> set cs" for c using that by simp
  have "?M \<in> fst ` set cs" using False by (intro Min_in) auto
  then have ne: "filter (\<lambda>c. fst c = ?M) cs \<noteq> []" by (force simp: filter_empty_conv)
  have none: "filter (\<lambda>c. fst c = a) cs = []" if "a < ?M"
  proof -
    have "fst c \<noteq> a" if "c \<in> set cs" for c using le[OF that] \<open>a < ?M\<close> by simp
    then show ?thesis by (simp add: filter_empty_conv)
  qed
  have new_then: "first_nearest dmax ?cs' = hd (filter (\<lambda>c. fst c = ?M') ?cs')"
    if "?M' < dmax" "?M' < 100000"
    unfolding first_nearest_def by (rule if_P) (use that in blast)
  have new_else: "first_nearest dmax ?cs' = (100000, 100000)"
    if "\<not> (?M' < dmax \<and> ?M' < 100000)"
    unfolding first_nearest_def by (rule if_not_P) (use that in blast)
  show ?thesis
  proof (cases "?M < dmax \<and> ?M < 100000")
    case good: True
    have old: "first_nearest dmax cs = hd (filter (\<lambda>c. fst c = ?M) cs)"
      unfolding first_nearest_def by (rule if_P) (use good False in blast)
    have "hd (filter (\<lambda>c. fst c = ?M) cs) \<in> set (filter (\<lambda>c. fst c = ?M) cs)"
      using ne by (rule hd_in_set)
    then have fst_old: "fst (first_nearest dmax cs) = ?M" using old by simp
    show ?thesis
    proof (cases "a < dmax \<and> a < ?M")
      case True
      then have m: "?M' = a" using M' by simp
      have "?M' < dmax" "?M' < 100000" using True good m by auto
      from new_then[OF this] have "first_nearest dmax ?cs' = (a, i)"
        unfolding m using none True by simp
      moreover have "a < dmax \<and> a < fst (first_nearest dmax cs)" using True fst_old by simp
      ultimately show ?thesis by auto
    next
      case F: False
      with good have "?M \<le> a" by auto
      then have m: "?M' = ?M" using M' by simp
      have "?M' < dmax" "?M' < 100000" using good m by auto
      from new_then[OF this] have "first_nearest dmax ?cs' = hd (filter (\<lambda>c. fst c = ?M) cs)"
        unfolding m using ne by simp
      moreover have "\<not> (a < dmax \<and> a < fst (first_nearest dmax cs))"
        using F fst_old by simp
      ultimately show ?thesis using old by auto
    qed
  next
    case bad: False
    have old: "first_nearest dmax cs = (100000, 100000)"
      unfolding first_nearest_def by (rule if_not_P) (use bad in blast)
    show ?thesis
    proof (cases "a < dmax \<and> a < 100000")
      case True
      with bad have lt: "a < ?M" by auto
      then have m: "?M' = a" using M' by simp
      have "?M' < dmax" "?M' < 100000" using True m by auto
      from new_then[OF this] have "first_nearest dmax ?cs' = (a, i)"
        unfolding m using none[OF lt] by simp
      moreover have "a < dmax \<and> a < fst (first_nearest dmax cs)" using True old by simp
      ultimately show ?thesis by auto
    next
      case F: False
      with bad have "\<not> (?M' < dmax \<and> ?M' < 100000)" unfolding M' by (auto simp: min_def)
      from new_else[OF this] have "first_nearest dmax ?cs' = (100000, 100000)" .
      moreover have "\<not> (a < dmax \<and> a < fst (first_nearest dmax cs))" using F old by simp
      ultimately show ?thesis using old by auto
    qed
  qed
qed

lemma exact_body_cases:
  assumes "exact_body pca_fit hook n i (st, A, w) = Inr (st', A', w')"
  obtains (skip) "stem_axis pca_fit A i = Inr None"
      and "st' = st\<lparr>id_progress := id_progress st + 1\<rparr>"
      and "call_hook hook (id_progress st + 1) n (A, w) = Inr (A', w')"
    | (take) row a valid_points where "stem_axis pca_fit A i = Inr (Some (row, a))"
      and "valid_points_of (d_max A) a (dist_to_axis st) = Inr valid_points"
      and "st' = st\<lparr>detected_trees := (detected_trees st)[id_valid st := row],
                      tree_id_vector := masked_fill (tree_id_vector st) valid_points i,
                      dist_to_axis := masked_copy (dist_to_axis st) valid_points a,
                      id_valid := id_valid st + 1,
                      id_progress := id_progress st + 1\<rparr>"
      and "call_hook hook (id_progress st + 1) n (A, w) = Inr (A', w')"
proof -
  from assms obtain r where r: "stem_axis pca_fit A i = Inr r"
    by (auto simp: exact_body_def and_then_Inr_iff)
  show ?thesis
  proof (cases r)
    case None
    with assms r show ?thesis
      by (intro skip) (auto simp: exact_body_def and_then_Inr_iff Let_def)
  next
    case (Some ra)
    obtain row a where ra: "ra = (row, a)" by (cases ra)
    with assms r Some show ?thesis
      by (auto simp: exact_body_def and_then_Inr_iff Let_def intro: take)
  qed
qed

lemma candidate_list_snoc:
  "candidate_list pca_fit A (ids @ [i]) j =
     candidate_list pca_fit A ids j @
       (case stem_axis pca_fit A i of Inr (Some (row, a)) \<Rightarrow> [(a ! j, i)] | _ \<Rightarrow> [])"
  by (auto simp: candidate_list_def valid_axes_def split: sum.splits option.splits)

lemma exact_body_point:
  assumes body: "exact_body pca_fit hook n i (st, A, w) = Inr (st', A', w')"
    and ax: "stem_axis pca_fit A i = Inr (Some (row, a))"
    and ld: "length (dist_to_axis st) = length (voxelated_cloud A)"
    and lt: "length (tree_id_vector st) = length (voxelated_cloud A)"
  shows "length (dist_to_axis st') = length (voxelated_cloud A)"
    and "length (tree_id_vector st') = length (voxelated_cloud A)"
    and "j < length (voxelated_cloud A) \<Longrightarrow>
         (dist_to_axis st' ! j, tree_id_vector st' ! j) =
           (if a ! j < d_max A \<and> a ! j < dist_to_axis st ! j then (a ! j, i)
            else (dist_to_axis st ! j, tree_id_vector st ! j))"
proof -
  have la: "length a = length (voxelated_cloud A)" using stem_axis_Some(2)[OF ax] .
  from body ax obtain valid_points where
    v: "valid_points_of (d_max A) a (dist_to_axis st) = Inr valid_points"
    and d': "dist_to_axis st' = masked_copy (dist_to_axis st) valid_points a"
    and t': "tree_id_vector st' = masked_fill (tree_id_vector st) valid_points i"
    by (cases rule: exact_body_cases) auto
  from v la ld have vp: "valid_points = map2 (\<lambda>a d. a < d_max A \<and> a < d) a (dist_to_axis st)"
    by (simp add: valid_points_of_def)
  show "length (dist_to_axis st') = length (voxelated_cloud A)"
    using la ld by (simp add: d' vp masked_copy_def)
  show "length (tree_id_vector st') = length (voxelated_cloud A)"
    using la ld lt by (simp add: t' vp masked_fill_def)
  show "(dist_to_axis st' ! j, tree_id_vector st' ! j) =
           (if a ! j < d_max A \<and> a ! j < dist_to_axis st ! j then (a ! j, i)
            else (dist_to_axis st ! j, tree_id_vector st ! j))"
    if "j < length (voxelated_cloud A)"
    using that la ld lt by (simp add: d' t' vp masked_copy_def masked_fill_def)
qed

lemma exact_body_assigned:
  assumes body: "exact_body pca_fit hook n i (st, A, w) = Inr (st', A', w')"
    and keeps: "keeps_arrays hook"
    and inv: "assigned pca_fit A ids st"
  shows "assigned pca_fit A (ids @ [i]) st' \<and> A' = A"
  using body
proof (cases rule: exact_body_cases)
  case skip
  then show ?thesis using inv call_hook_keeps[OF keeps]
    by (auto simp: assigned_def candidate_list_snoc)
next
  case (take row a valid_points)
  from inv have ld: "length (dist_to_axis st) = length (voxelated_cloud A)"
    and lt: "length (tree_id_vector st) = length (voxelated_cloud A)"
    by (simp_all add: assigned_def)
  have "(dist_to_axis st' ! j, tree_id_vector st' ! j) =
          first_nearest (d_max A) (candidate_list pca_fit A (ids @ [i]) j)"
    if j: "j < length (voxelated_cloud A)" for j
  proof -
    from inv j have old: "(dist_to_axis st ! j, tree_id_vector st ! j) =
        first_nearest (d_max A) (candidate_list pca_fit A ids j)" by (simp add: assigned_def)
    have "fst (first_nearest (d_max A) (candidate_list pca_fit A ids j)) = dist_to_axis st ! j"
      using old by (metis fst_conv)
    then show ?thesis
      using exact_body_point(3)[OF body take(1) ld lt j] old
      by (simp add: candidate_list_snoc take(1) first_nearest_snoc)
  qed
  then show ?thesis
    using exact_body_point(1,2)[OF body take(1) ld lt] call_hook_keeps[OF keeps take(4)]
    by (simp add: assigned_def)
qed

lemma exact_loop_assigned:
  assumes "keeps_arrays hook"
  shows "exact_loop pca_fit hook n ids (exact_init (length (voxelated_cloud A)) n, A, w) =
           Inr (st, A', w')
         \<Longrightarrow> assigned pca_fit A ids st \<and> A' = A"
proof (induction ids arbitrary: st A' w' rule: rev_induct)
  case Nil
  then have "st = exact_init (length (voxelated_cloud A)) n" "A' = A"
    by (auto simp: exact_loop_def)
  then show ?case
    by (simp add: assigned_def exact_init_def candidate_list_def valid_axes_def)
next
  case (snoc i ids)
  from snoc.prems obtain st0 A0 w0 where
    first: "exact_loop pca_fit hook n ids (exact_init (length (voxelated_cloud A)) n, A, w) =
            Inr (st0, A0, w0)"
    and last: "exact_body pca_fit hook n i (st0, A0, w0) = Inr (st, A', w')"
    by (auto simp: exact_loop_def for_each_append and_then_Inr_iff)
  from snoc.IH[OF first] have "assigned pca_fit A ids st0" "A0 = A" by simp_all
  with exact_body_assigned[OF last[unfolded \<open>A0 = A\<close>] assms] show ?case by simp
qed

lemma candidate_list_set:
  assumes "set ids2 = set ids"
  shows "set (candidate_list pca_fit A ids2 j) = set (candidate_list pca_fit A ids j)"
proof -
  have "set (valid_axes pca_fit A xs) =
        (\<Union>i\<in>set xs. set (case stem_axis pca_fit A i of
                              Inr (Some (row, axis_dist)) \<Rightarrow> [(i, axis_dist)] | _ \<Rightarrow> []))" for xs
    by (simp add: valid_axes_def)
  with assms show ?thesis by (simp add: candidate_list_def)
qed

lemma first_nearest_dist_set:
  assumes "set cs2 = set cs"
  shows "fst (first_nearest dmax cs2) = fst (first_nearest dmax cs)"
proof -
  obtain dj tj where a: "first_nearest dmax cs = (dj, tj)" by (cases "first_nearest dmax cs")
  obtain dj2 tj2 where b: "first_nearest dmax cs2 = (dj2, tj2)" by (cases "first_nearest dmax cs2")
  from assms have e: "cs2 = [] \<longleftrightarrow> cs = []" by (metis set_empty)
  from first_nearest_cases[OF a] first_nearest_cases[OF b] assms e have "dj2 = dj" by auto
  with a b show ?thesis by simp
qed

lemma first_nearest_id_set:
  assumes "set cs2 = set cs" and "one_nearest dmax cs"
  shows "snd (first_nearest dmax cs2) = snd (first_nearest dmax cs)"
proof -
  obtain dj tj where a: "first_nearest dmax cs = (dj, tj)" by (cases "first_nearest dmax cs")
  obtain dj2 tj2 where b: "first_nearest dmax cs2 = (dj2, tj2)" by (cases "first_nearest dmax cs2")
  from assms have e: "cs2 = [] \<longleftrightarrow> cs = []" by (metis set_empty)
  have "tj2 = tj"
  proof (cases "cs \<noteq> [] \<and> Min (fst ` set cs) < dmax \<and> Min (fst ` set cs) < 100000")
    case False
    with first_nearest_cases[OF a] first_nearest_cases[OF b] assms(1) e show ?thesis by auto
  next
    case True
    with first_nearest_cases[OF a] have 1: "dj = Min (fst ` set cs)" "(dj, tj) \<in> set cs" by auto
    from True first_nearest_cases[OF b] assms(1) e
    have 2: "dj2 = Min (fst ` set cs)" "(dj2, tj2) \<in> set cs" by auto
    from assms(2)[unfolded one_nearest_def, rule_format, OF 2(2) 1(2)] 1 2 True
    show ?thesis by simp
  qed
  with a b show ?thesis by simp
qed

text \<open>
  C6, as stated, fails twice. The comparison of line 163 is strict, so of two axes at the
  same distance the one enumerated first keeps the point: the point \<open>(1, 0, 0)\<close> lies at
  distance 1 from both stems, and it is given to the stem through the origin when that stem
  bears the smaller id, to the stem through \<open>(2, 0, 0)\<close> when the ids are exchanged (in
  both runs the returned id is 7, the row of which has another centroid). And the initial
  distance 100000 hides an axis at distance 150000, although \<^verbatim>\<open>d_max\<close> is 200000.
\<close>

theorem exact_assignment_order_counterexample:
  "compute_axes_exact upright_pca (canonical [[1, 0, 0, 0]] two_stems 3 2) None () =
   Inr (([\<lparr>tree_id = 7, pca1 = (0, 0, 1), stem_centroid = (0, 0, 3 / 2), height_diff = 0,
           deviation = Finite 0\<rparr>,
          \<lparr>tree_id = 8, pca1 = (0, 0, 1), stem_centroid = (2, 0, 3 / 2), height_diff = 0,
           deviation = Finite 0\<rparr>],
         [1], [7]), ()) \<and>
   compute_axes_exact upright_pca (canonical [[1, 0, 0, 0]] two_stems_swapped 3 2) None () =
   Inr (([\<lparr>tree_id = 7, pca1 = (0, 0, 1), stem_centroid = (2, 0, 3 / 2), height_diff = 0,
           deviation = Finite 0\<rparr>,
          \<lparr>tree_id = 8, pca1 = (0, 0, 1), stem_centroid = (0, 0, 3 / 2), height_diff = 0,
           deviation = Finite 0\<rparr>],
         [1], [7]), ()) \<and>
   compute_axes_exact upright_pca (canonical [[150000, 0, 0, 0]] stem7 3 200000) None () =
   Inr (([\<lparr>tree_id = 7, pca1 = (0, 0, 1), stem_centroid = (0, 0, 3 / 2), height_diff = 0,
           deviation = Finite 0\<rparr>],
         [100000], [100000]), ())"
  by (simp add: numpy_defs stem_defs exact_defs input_defs two_stems_swapped_def)

lemma exact_first_nearest:
  assumes keeps: "keeps_arrays hook"
    and filt: "filt_unique_values A = Inr filt"
    and run: "compute_axes_exact pca_fit A hook w = Inr ((dt, dists, tids), w')"
    and j: "j < length (voxelated_cloud A)"
  shows "(dists ! j, tids ! j) = first_nearest (d_max A) (candidate_list pca_fit A filt j)"
proof -
  from run filt have "\<exists>Aw st A'.
      call_hook hook 0 (length filt) (A, w) = Inr Aw \<and>
      exact_loop pca_fit hook (length filt) filt
        (exact_init (length (voxelated_cloud A)) (length filt), Aw) = Inr (st, A', w') \<and>
      dists = dist_to_axis st \<and> tids = tree_id_vector st"
    by (auto simp: compute_axes_exact_def and_then_Inr_iff Let_def)
  then obtain Aw st A' where
    h: "call_hook hook 0 (length filt) (A, w) = Inr Aw"
    and loop: "exact_loop pca_fit hook (length filt) filt
                 (exact_init (length (voxelated_cloud A)) (length filt), Aw) = Inr (st, A', w')"
    and d: "dists = dist_to_axis st" and t: "tids = tree_id_vector st"
    by blast
  obtain w0 where Aw: "Aw = (A, w0)"
    using call_hook_keeps[OF keeps, of 0 "length filt" A w "fst Aw" "snd Aw"] h
    by (cases Aw) auto
  from exact_loop_assigned[OF keeps loop[unfolded Aw]] have "assigned pca_fit A filt st" by simp
  with j show ?thesis by (simp add: assigned_def d t)
qed

text \<open>
  C6, amended. Under a hook that leaves the two arrays as they are, the exact strategy
  gives every point the first of its nearest valid axes: the pair (distance, tree id) of
  point \<open>j\<close> is that of the first axis, in the order of enumeration, at the least distance
  of \<open>j\<close> to a valid axis, when that distance is below \<^verbatim>\<open>d_max\<close> and below 100000, and
  the two sentinels otherwise; so it is for the loop over any list of ids and for
  \<^verbatim>\<open>compute_axes_exact\<close>, which enumerates \<^verbatim>\<open>filt_unique_values\<close>. The vector of
  distances is the same for two enumerations of the same ids; the tree id of \<open>j\<close> is the
  same when the axes at the least distance bear one id. One iteration reassigns a point if
  and only if the new axis is closer than \<^verbatim>\<open>d_max\<close> and strictly closer than the distance
  recorded so far.
\<close>

theorem exact_assigns_first_nearest_axis:
  assumes keeps: "keeps_arrays hook" and keeps2: "keeps_arrays hook2"
    and run: "exact_loop pca_fit hook n ids
                (exact_init (length (voxelated_cloud A)) n, A, w) = Inr (st, A1, w1)"
    and run2: "exact_loop pca_fit hook2 n2 ids2
                (exact_init (length (voxelated_cloud A)) n2, A, w2) = Inr (st2, A2, w2')"
    and perm: "set ids2 = set ids"
    and j: "j < length (voxelated_cloud A)"
  shows "(dist_to_axis st ! j, tree_id_vector st ! j) =
           first_nearest (d_max A) (candidate_list pca_fit A ids j) \<and>
         dist_to_axis st2 = dist_to_axis st \<and>
         (one_nearest (d_max A) (candidate_list pca_fit A ids j) \<longrightarrow>
            tree_id_vector st2 ! j = tree_id_vector st ! j) \<and>
         (\<forall>pre i post s0 s1 row a.
            ids = pre @ i # post \<longrightarrow>
            exact_loop pca_fit hook n pre
              (exact_init (length (voxelated_cloud A)) n, A, w) = Inr s0 \<longrightarrow>
            exact_loop pca_fit hook n (pre @ [i])
              (exact_init (length (voxelated_cloud A)) n, A, w) = Inr s1 \<longrightarrow>
            stem_axis pca_fit A i = Inr (Some (row, a)) \<longrightarrow>
            (dist_to_axis (fst s1) ! j, tree_id_vector (fst s1) ! j) =
              (if a ! j < d_max A \<and> a ! j < dist_to_axis (fst s0) ! j then (a ! j, i)
               else (dist_to_axis (fst s0) ! j, tree_id_vector (fst s0) ! j))) \<and>
         (\<forall>filt dt dists tids w0 w0'.
            filt_unique_values A = Inr filt \<longrightarrow>
            compute_axes_exact pca_fit A hook w0 = Inr ((dt, dists, tids), w0') \<longrightarrow>
            (dists ! j, tids ! j) = first_nearest (d_max A) (candidate_list pca_fit A filt j))"
proof (intro conjI allI impI)
  let ?N = "length (voxelated_cloud A)"
  from exact_loop_assigned[OF keeps run] have a1: "assigned pca_fit A ids st" by simp
  from exact_loop_assigned[OF keeps2 run2] have a2: "assigned pca_fit A ids2 st2" by simp
  have n1: "(dist_to_axis st ! k, tree_id_vector st ! k) =
              first_nearest (d_max A) (candidate_list pca_fit A ids k)" if "k < ?N" for k
    using a1 that by (simp add: assigned_def)
  have n2: "(dist_to_axis st2 ! k, tree_id_vector st2 ! k) =
              first_nearest (d_max A) (candidate_list pca_fit A ids2 k)" if "k < ?N" for k
    using a2 that by (simp add: assigned_def)
  show "(dist_to_axis st ! j, tree_id_vector st ! j) =
           first_nearest (d_max A) (candidate_list pca_fit A ids j)"
    by (rule n1[OF j])
  show "dist_to_axis st2 = dist_to_axis st"
  proof (rule nth_equalityI)
    show "length (dist_to_axis st2) = length (dist_to_axis st)"
      using a1 a2 by (simp add: assigned_def)
  next
    fix k assume "k < length (dist_to_axis st2)"
    then have k: "k < ?N" using a2 by (simp add: assigned_def)
    have "dist_to_axis st2 ! k = fst (first_nearest (d_max A) (candidate_list pca_fit A ids2 k))"
      using n2[OF k] by (metis fst_conv)
    also have "\<dots> = fst (first_nearest (d_max A) (candidate_list pca_fit A ids k))"
      by (rule first_nearest_dist_set) (rule candidate_list_set[OF perm])
    also have "\<dots> = dist_to_axis st ! k" using n1[OF k] by (metis fst_conv)
    finally show "dist_to_axis st2 ! k = dist_to_axis st ! k" .
  qed
  show "tree_id_vector st2 ! j = tree_id_vector st ! j"
    if one: "one_nearest (d_max A) (candidate_list pca_fit A ids j)"
  proof -
    have "tree_id_vector st2 ! j = snd (first_nearest (d_max A) (candidate_list pca_fit A ids2 j))"
      using n2[OF j] by (metis snd_conv)
    also have "\<dots> = snd (first_nearest (d_max A) (candidate_list pca_fit A ids j))"
      by (rule first_nearest_id_set) (rule candidate_list_set[OF perm], rule one)
    also have "\<dots> = tree_id_vector st ! j" using n1[OF j] by (metis snd_conv)
    finally show ?thesis .
  qed
next
  fix pre i post s0 s1 row a
  assume split: "ids = pre @ i # post"
    and r0: "exact_loop pca_fit hook n pre
               (exact_init (length (voxelated_cloud A)) n, A, w) = Inr s0"
    and r1: "exact_loop pca_fit hook n (pre @ [i])
               (exact_init (length (voxelated_cloud A)) n, A, w) = Inr s1"
    and ax: "stem_axis pca_fit A i = Inr (Some (row, a))"
  obtain st0 A0 w0 where s0: "s0 = (st0, A0, w0)" by (cases s0)
  obtain st1 A1' w1' where s1: "s1 = (st1, A1', w1')" by (cases s1)
  from exact_loop_assigned[OF keeps r0[unfolded s0]]
  have inv: "assigned pca_fit A pre st0" and A0: "A0 = A" by simp_all
  from r1 r0 have body: "exact_body pca_fit hook n i (st0, A, w0) = Inr (st1, A1', w1')"
    by (auto simp: exact_loop_def for_each_append and_then_Inr_iff s0 s1 A0)
  from inv have ld: "length (dist_to_axis st0) = length (voxelated_cloud A)"
    and lt: "length (tree_id_vector st0) = length (voxelated_cloud A)"
    by (simp_all add: assigned_def)
  from exact_body_point(3)[OF body ax ld lt j]
  show "(dist_to_axis (fst s1) ! j, tree_id_vector (fst s1) ! j) =
              (if a ! j < d_max A \<and> a ! j < dist_to_axis (fst s0) ! j then (a ! j, i)
               else (dist_to_axis (fst s0) ! j, tree_id_vector (fst s0) ! j))"
    by (simp add: s0 s1)
next
  fix filt dt dists tids w0 w0'
  assume "filt_unique_values A = Inr filt"
    and "compute_axes_exact pca_fit A hook w0 = Inr ((dt, dists, tids), w0')"
  then show "(dists ! j, tids ! j) = first_nearest (d_max A) (candidate_list pca_fit A filt j)"
    using exact_first_nearest[OF keeps _ _ j] by blast
qed

theorem exact_assigns_first_nearest_axis_witness:
  "candidate_list upright_pca (canonical [[1, 0, 0, 0], [3, 0, 0, 0]] two_stems 3 2) [7, 8] 0 =
     [(1, 7), (1, 8)] \<and>
   first_nearest 2 [(1, 7), (1, 8)] = (1, 7) \<and>
   candidate_list upright_pca (canonical [[1, 0, 0, 0], [3, 0, 0, 0]] two_stems 3 2) [7, 8] 1 =
     [(3, 7), (1, 8)] \<and>
   first_nearest 2 [(3, 7), (1, 8)] = (1, 8) \<and>
   one_nearest 2 [(3, 7), (1, 8)] \<and>
   compute_axes_exact upright_pca (canonical [[1, 0, 0, 0], [3, 0, 0, 0]] two_stems 3 2) None () =
   Inr (([\<lparr>tree_id = 7, pca1 = (0, 0, 1), stem_centroid = (0, 0, 3 / 2), height_diff = 0,
           deviation = Finite 0\<rparr>,
          \<lparr>tree_id = 8, pca1 = (0, 0, 1), stem_centroid = (2, 0, 3 / 2), height_diff = 0,
           deviation = Finite 0\<rparr>],
         [1, 1], [7, 8]), ())"
proof -
  let ?A = "canonical [[1, 0, 0, 0], [3, 0, 0, 0]] two_stems 3 2"
  let ?row7 = "\<lparr>tree_id = 7, pca1 = (0, 0, 1), stem_centroid = (0, 0, 3 / 2), height_diff = 0,
                 deviation = Finite 0\<rparr>"
  let ?row8 = "\<lparr>tree_id = 8, pca1 = (0, 0, 1), stem_centroid = (2, 0, 3 / 2), height_diff = 0,
                 deviation = Finite 0\<rparr>"
  let ?st = "\<lparr>detected_trees = [?row7, ?row8], id_valid = 2, id_progress = 2,
               dist_to_axis = [1, 1], tree_id_vector = [7, 8]\<rparr>"
  let ?st2 = "\<lparr>detected_trees = [?row8, ?row7], id_valid = 2, id_progress = 2,
                dist_to_axis = [1, 1], tree_id_vector = [8, 8]\<rparr>"
  have r1: "exact_loop upright_pca None 2 [7, 8]
              (exact_init (length (voxelated_cloud ?A)) 2, ?A, ()) = Inr (?st, ?A, ())"
    by (simp add: numpy_defs stem_defs exact_defs input_defs numeral_2_eq_2)
  have r2: "exact_loop upright_pca None 2 [8, 7]
              (exact_init (length (voxelated_cloud ?A)) 2, ?A, ()) = Inr (?st2, ?A, ())"
    by (simp add: numpy_defs stem_defs exact_defs input_defs numeral_2_eq_2)
  have p: "set [8, 7 :: real] = set [7, 8]" by auto
  have j0: "0 < length (voxelated_cloud ?A)" and j1: "1 < length (voxelated_cloud ?A)"
    by (simp_all add: canonical_def)
  have c0: "candidate_list upright_pca ?A [7, 8] 0 = [(1, 7), (1, 8)]"
    by (simp add: candidate_list_def valid_axes_def numpy_defs stem_defs exact_defs input_defs)
  have c1: "candidate_list upright_pca ?A [7, 8] 1 = [(3, 7), (1, 8)]"
    by (simp add: candidate_list_def valid_axes_def numpy_defs stem_defs exact_defs input_defs)
  have dm: "d_max ?A = 2" by (simp add: canonical_def)
  have one: "one_nearest 2 [(3, 7), (1, 8)]" by (simp add: one_nearest_def)
  note t0 = exact_assigns_first_nearest_axis[OF keeps_arrays_None keeps_arrays_None r1 r2 p j0]
  note t1 = exact_assigns_first_nearest_axis[OF keeps_arrays_None keeps_arrays_None r1 r2 p j1]
  from t0[THEN conjunct1, unfolded c0 dm]
  have "first_nearest 2 [(1, 7), (1, 8)] = (1, 7)" by simp
  moreover from t1[THEN conjunct1, unfolded c1 dm]
  have "first_nearest 2 [(3, 7), (1, 8)] = (1, 8)" by simp
  moreover have "compute_axes_exact upright_pca ?A None () =
                   Inr (([?row7, ?row8], [1, 1], [7, 8]), ())"
    by (simp add: numpy_defs stem_defs exact_defs input_defs)
  ultimately show ?thesis using c0 c1 one by simp
qed

text \<open>
  Hence the invariant of the two vectors holds for the exact strategy, provided no
  cluster bears the id 100000 and the hook leaves the arrays as they are: a point's tree id
  is the sentinel if and only if its distance is the sentinel or at least \<^verbatim>\<open>d_max\<close>.
\<close>

lemma candidate_list_ids:
  assumes "(dj, tj) \<in> set (candidate_list pca_fit A ids j)"
  shows "tj \<in> set ids"
  using assms
  by (auto simp: candidate_list_def valid_axes_def split: sum.splits option.splits)

lemma exact_sentinel_iff:
  assumes keeps: "keeps_arrays hook"
    and run: "compute_axes_exact pca_fit A hook w = Inr ((dt, dists, tids), w')"
    and filt: "filt_unique_values A = Inr filt" and no: "100000 \<notin> set filt"
    and j: "j < length (voxelated_cloud A)"
  shows "tids ! j = 100000 \<longleftrightarrow> dists ! j = 100000 \<or> d_max A \<le> dists ! j"
proof -
  from exact_first_nearest[OF keeps filt run j]
  have n: "first_nearest (d_max A) (candidate_list pca_fit A filt j) = (dists ! j, tids ! j)"
    by simp
  show ?thesis
  proof (cases "dists ! j = 100000 \<and> tids ! j = 100000")
    case True
    then show ?thesis by simp
  next
    case False
    with first_nearest_cases[OF n] have lt: "dists ! j < d_max A" "dists ! j < 100000"
      and mem: "(dists ! j, tids ! j) \<in> set (candidate_list pca_fit A filt j)"
      by auto
    from candidate_list_ids[OF mem] no have "tids ! j \<noteq> 100000" by auto
    with lt show ?thesis by simp
  qed
qed

section \<open>An axis without vertical component\<close>

lemma take_Suc_update:
  "m < length xs \<Longrightarrow> take (Suc m) (xs[m := y]) = take m xs @ [y]"
  by (simp add: take_Suc_conv_app_nth)

lemma exact_body_recorded:
  assumes body: "exact_body pca_fit hook n i (st, A, w) = Inr (st', A', w')"
    and keeps: "keeps_arrays hook"
    and inv: "recorded pca_fit A n ids st" and len: "length ids < n"
  shows "recorded pca_fit A n (ids @ [i]) st' \<and> A' = A"
  using body
proof (cases rule: exact_body_cases)
  case skip
  then show ?thesis using inv call_hook_keeps[OF keeps]
    by (auto simp: recorded_def)
next
  case (take row a valid_points)
  from inv len have m: "id_valid st < length (detected_trees st)" by (simp add: recorded_def)
  have tk: "take (id_valid st') (detected_trees st') = take (id_valid st) (detected_trees st) @ [row]"
    using take_Suc_update[OF m] by (simp add: take(3))
  show ?thesis using inv take(1) call_hook_keeps[OF keeps take(4)]
    by (auto simp: recorded_def tk) (simp_all add: take(3))
qed

lemma exact_loop_recorded:
  assumes "keeps_arrays hook"
  shows "length ids \<le> n \<Longrightarrow>
         exact_loop pca_fit hook n ids (exact_init m n, A, w) = Inr (st, A', w')
         \<Longrightarrow> recorded pca_fit A n ids st \<and> A' = A"
proof (induction ids arbitrary: st A' w' rule: rev_induct)
  case Nil
  then have "st = exact_init m n" "A' = A" by (auto simp: exact_loop_def)
  then show ?case by (simp add: recorded_def exact_init_def)
next
  case (snoc i ids)
  from snoc.prems(2) obtain st0 A0 w0 where
    first: "exact_loop pca_fit hook n ids (exact_init m n, A, w) = Inr (st0, A0, w0)"
    and last: "exact_body pca_fit hook n i (st0, A0, w0) = Inr (st, A', w')"
    by (auto simp: exact_loop_def for_each_append and_then_Inr_iff)
  from snoc.prems(1) have l: "length ids \<le> n" "length ids < n" by simp_all
  from snoc.IH[OF l(1) first] have "recorded pca_fit A n ids st0" "A0 = A" by simp_all
  with exact_body_recorded[OF last[unfolded \<open>A0 = A\<close>] assms _ l(2)] show ?case by simp
qed

lemma stem_axis_of_fit:
  assumes "fit_stem pca_fit A i = Inr (Some (row, p))" and "stem_axis pca_fit A i = Inr r"
  shows "\<exists>a. r = Some (row, a)"
  using assms by (auto simp: stem_axis_def and_then_def Let_def split: sum.splits)

lemma exact_returns_row:
  assumes keeps: "keeps_arrays hook"
    and filt: "filt_unique_values A = Inr filt" and i: "i \<in> set filt"
    and fit: "fit_stem pca_fit A i = Inr (Some (row, p))"
    and nz: "pca1 row \<noteq> (0, 0, 0)"
    and run: "compute_axes_exact pca_fit A hook w = Inr ((dt, dists, tids), w')"
  shows "row \<in> set dt"
proof -
  from run filt obtain Aw st A' where
    h0: "call_hook hook 0 (length filt) (A, w) = Inr Aw"
    and loop: "exact_loop pca_fit hook (length filt) filt
             (exact_init (length (voxelated_cloud A)) (length filt), Aw) = Inr (st, A', w')"
    and dt: "dt = filter (\<lambda>r. r \<noteq> zero_row) (detected_trees st)"
    by (auto simp: compute_axes_exact_def and_then_Inr_iff Let_def)
  obtain w0 where Aw: "Aw = (A, w0)" using call_hook_keeps[OF keeps, of 0 "length filt" A w "fst Aw" "snd Aw"] h0
    by (cases Aw) auto
  from exact_loop_recorded[OF keeps _ loop[unfolded Aw]] have rec: "recorded pca_fit A (length filt) filt st"
    by simp
  with i obtain r where r: "stem_axis pca_fit A i = Inr r" by (auto simp: recorded_def)
  from stem_axis_of_fit[OF fit r] obtain a where "r = Some (row, a)" by blast
  with rec r i have "row \<in> set (take (id_valid st) (detected_trees st))"
    unfolding recorded_def by blast
  then have "row \<in> set (detected_trees st)" by (rule in_set_takeD)
  moreover from nz have "row \<noteq> zero_row" by (auto simp: zero_row_def)
  ultimately show ?thesis by (simp add: dt)
qed

lemma exact_body_total:
  assumes keeps: "keeps_arrays hook" and normal: "returns_normally hook"
    and ax: "stem_axis pca_fit A i = Inr r"
    and ld: "length (dist_to_axis st) = length (voxelated_cloud A)"
    and lt: "length (tree_id_vector st) = length (voxelated_cloud A)"
  shows "\<exists>st' w'. exact_body pca_fit hook n i (st, A, w) = Inr (st', A, w') \<and>
           length (dist_to_axis st') = length (voxelated_cloud A) \<and>
           length (tree_id_vector st') = length (voxelated_cloud A)"
proof (cases r)
  case None
  from call_hook_returns[OF keeps normal, of "id_progress st + 1" n A w]
  obtain w' where "call_hook hook (id_progress st + 1) n (A, w) = Inr (A, w')" by blast
  with None ax ld lt show ?thesis
    by (simp add: exact_body_def and_then_def Let_def)
next
  case (Some ra)
  obtain row a where ra: "ra = (row, a)" by (cases ra)
  have la: "length a = length (voxelated_cloud A)"
    using stem_axis_Some(2)[OF ax[unfolded Some ra]] .
  from call_hook_returns[OF keeps normal, of "id_progress st + 1" n A w]
  obtain w' where h: "call_hook hook (id_progress st + 1) n (A, w) = Inr (A, w')" by blast
  let ?st' = "st\<lparr>detected_trees := (detected_trees st)[id_valid st := row],
                  tree_id_vector := masked_fill (tree_id_vector st)
                     (map2 (\<lambda>a d. a < d_max A \<and> a < d) a (dist_to_axis st)) i,
                  dist_to_axis := masked_copy (dist_to_axis st)
                     (map2 (\<lambda>a d. a < d_max A \<and> a < d) a (dist_to_axis st)) a,
                  id_valid := id_valid st + 1,
                  id_progress := id_progress st + 1\<rparr>"
  have b: "exact_body pca_fit hook n i (st, A, w) = Inr (?st', A, w')"
    using ax Some ra la ld h
    by (simp add: exact_body_def and_then_def Let_def valid_points_of_def)
  from exact_body_point(1,2)[OF b ax[unfolded Some ra] ld lt] b show ?thesis by blast
qed

lemma exact_returns:
  assumes keeps: "keeps_arrays hook" and normal: "returns_normally hook"
    and filt: "filt_unique_values A = Inr filt"
    and all: "\<forall>k\<in>set filt. \<exists>r. stem_axis pca_fit A k = Inr r"
  shows "\<exists>res. compute_axes_exact pca_fit A hook (w :: 'w) = Inr res"
proof -
  let ?N = "length (voxelated_cloud A)"
  let ?I = "\<lambda>s :: exact_state \<times> axes_args \<times> 'w.
              fst (snd s) = A \<and> length (dist_to_axis (fst s)) = ?N \<and>
              length (tree_id_vector (fst s)) = ?N"
  from call_hook_returns[OF keeps normal, of 0 "length filt" A w]
  obtain w0 where h0: "call_hook hook 0 (length filt) (A, w) = Inr (A, w0)" by blast
  have "\<exists>s'. for_each (exact_body pca_fit hook (length filt)) filt
                (exact_init ?N (length filt), A, w0) = Inr s'"
  proof (rule for_each_total[where I = ?I])
    show "?I (exact_init ?N (length filt), A, w0)" by (simp add: exact_init_def)
  next
    fix x t assume x: "x \<in> set filt" and t: "?I t"
    obtain st A0 w1 where tt: "t = (st, A0, w1)" by (cases t)
    from all x obtain r where r: "stem_axis pca_fit A x = Inr r" by blast
    from t tt have "A0 = A" "length (dist_to_axis st) = ?N" "length (tree_id_vector st) = ?N"
      by simp_all
    from exact_body_total[OF keeps normal r this(2,3), of "length filt" w1] tt \<open>A0 = A\<close>
    show "\<exists>t'. exact_body pca_fit hook (length filt) x t = Inr t' \<and> ?I t'" by auto
  qed
  then obtain s' where "exact_loop pca_fit hook (length filt) filt
                (exact_init ?N (length filt), A, w0) = Inr s'" by (auto simp: exact_loop_def)
  with filt h0 show ?thesis
    by (cases s') (simp add: compute_axes_exact_def and_then_def Let_def)
qed

lemma sample_axis_flat:
  assumes "snd (snd (pca1 row)) = 0"
  shows "sample_axis step bb_max bb_min row = Inl RuntimeError"
proof -
  obtain x y z where p: "pca1 row = (x, y, z)" by (cases "pca1 row")
  with assms have "vector_plane_intersection (stem_centroid row) (pca1 row) bb_max (0, 0, - 1) = None"
    by (simp add: vector_plane_intersection_def dot3_def EPS_def)
  then show ?thesis by (simp add: sample_axis_def axis_bb_inter_def and_then_def)
qed

lemma approx_body_flat:
  assumes "fit_stem pca_fit A i = Inr (Some (row, p))" and "snd (snd (pca1 row)) = 0"
  shows "approx_body pca_fit step bb_max bb_min hook n i (st, A, w) = Inl RuntimeError"
  using assms sample_axis_flat[OF assms(2)]
  by (simp add: approx_body_def and_then_def)

lemma approx_body_keeps:
  assumes "approx_body pca_fit step bb_max bb_min hook n i (st, A, w) = Inr (st', A', w')"
    and "keeps_arrays hook"
  shows "A' = A"
  using assms call_hook_keeps[OF assms(2)]
  by (auto simp: approx_body_def and_then_Inr_iff Let_def split: option.splits)

lemma approximate_raises:
  assumes keeps: "keeps_arrays hook"
    and filt: "filt_unique_values A = Inr filt" and i: "i \<in> set filt"
    and fit: "fit_stem pca_fit A i = Inr (Some (row, p))"
    and z: "snd (snd (pca1 row)) = 0"
  shows "\<exists>e. compute_axes_approximate pca_fit A res hook w = Inl e"
proof (cases "compute_axes_approximate pca_fit A res hook w")
  case (Inl e)
  then show ?thesis by blast
next
  case (Inr rw)
  with filt obtain bb_max bb_min Aw s where
    h0: "call_hook hook 0 (length filt) (A, w) = Inr Aw"
    and loop: "for_each (approx_body pca_fit res bb_max bb_min hook (length filt)) filt
             (approx_init (length filt), Aw) = Inr s"
    by (auto simp: compute_axes_approximate_def and_then_Inr_iff Let_def)
  have Aw: "fst Aw = A" using call_hook_keeps[OF keeps, of 0 "length filt" A w "fst Aw" "snd Aw"] h0
    by simp
  have "\<exists>t t'. fst (snd t) = A \<and>
          approx_body pca_fit res bb_max bb_min hook (length filt) i t = Inr t'"
    using loop
  proof (rule for_each_Inr_body)
    show "fst (snd (approx_init (length filt), Aw)) = A" using Aw by simp
  next
    fix y t t'
    assume "fst (snd t) = A" "approx_body pca_fit res bb_max bb_min hook (length filt) y t = Inr t'"
    then show "fst (snd t') = A"
      by (cases t; cases t') (auto dest: approx_body_keeps[OF _ keeps])
  qed (rule i)
  then obtain st0 w0 t' where
    "approx_body pca_fit res bb_max bb_min hook (length filt) i (st0, A, w0) = Inr t'"
    by (metis prod.collapse)
  with approx_body_flat[OF fit z, of res bb_max bb_min hook "length filt" st0 w0]
  show ?thesis by simp
qed

lemma deviation_angle_flat:
  assumes "(x, y) \<noteq> (0, 0)"
  shows "deviation_angle (x, y, 0) = Finite 90"
proof -
  have "x \<noteq> 0 \<or> y \<noteq> 0" using assms by simp
  then have "0 < x * x + y * y"
    by (metis add_pos_nonneg add_nonneg_pos mult_eq_0_iff not_real_square_gt_zero zero_le_square)
  then have "0 < np_hypot x y" by (simp add: np_hypot_def)
  then show ?thesis by (simp add: deviation_angle_def np_divide_def)
qed

lemma approx_loop_keeps:
  assumes keeps: "keeps_arrays hook"
    and loop: "for_each (approx_body pca_fit step bb_max bb_min hook n) ids (st, A, w) = Inr s"
  shows "fst (snd s) = A"
proof -
  have "(\<lambda>t. fst (snd t) = A) s"
    using loop
  proof (rule for_each_invariant)
    fix y t t'
    assume "fst (snd t) = A" "approx_body pca_fit step bb_max bb_min hook n y t = Inr t'"
    then show "fst (snd t') = A"
      by (cases t; cases t') (auto dest: approx_body_keeps[OF _ keeps])
  qed simp
  then show ?thesis .
qed

lemma approximate_raises_RuntimeError:
  assumes keeps: "keeps_arrays hook"
    and filt: "filt_unique_values A = Inr filt"
    and fit: "fit_stem pca_fit A i = Inr (Some (row, p))"
    and z: "snd (snd (pca1 row)) = 0"
    and pts: "xyz_columns (voxelated_cloud A) (X_field A) (Y_field A) (Z_field A) = Inr pts"
    and lo: "min3 pts = Inr bb_min" and hi: "max3 pts = Inr bb_max"
    and h0: "call_hook hook 0 (length filt) (A, w) = Inr Aw"
    and split: "filt = pre @ i # post"
    and before: "for_each (approx_body pca_fit res bb_max bb_min hook (length filt)) pre
                   (approx_init (length filt), Aw) = Inr s"
  shows "compute_axes_approximate pca_fit A res hook w = Inl RuntimeError"
proof -
  have Aw: "Aw = (A, snd Aw)"
    using call_hook_keeps[OF keeps, of 0 "length filt" A w "fst Aw" "snd Aw"] h0
    by (cases Aw) auto
  from approx_loop_keeps[OF keeps, of pca_fit res bb_max bb_min "length filt" pre
                           "approx_init (length filt)" A "snd Aw" s] before Aw
  have "fst (snd s) = A" by simp
  then obtain st0 w0 where s: "s = (st0, A, w0)" by (cases s) auto
  have "for_each (approx_body pca_fit res bb_max bb_min hook (length filt)) (pre @ i # post)
          (approx_init (length filt), Aw) = Inl RuntimeError"
    unfolding for_each_append
    using before s approx_body_flat[OF fit z, of res bb_max bb_min hook "length filt" st0 w0]
    by (simp add: and_then_def)
  then have "for_each (approx_body pca_fit res bb_max bb_min hook (length filt)) filt
          (approx_init (length filt), Aw) = Inl RuntimeError"
    by (simp only: split[symmetric])
  with filt pts lo hi h0 show ?thesis
    by (simp add: compute_axes_approximate_def and_then_def Let_def)
qed

text \<open>
  C7, as stated, fails for the approximate strategy: the stem below has a horizontal first
  component, and \<^verbatim>\<open>_axis_bb_inter\<close> raises \<^verbatim>\<open>RuntimeError\<close> for an axis parallel to the
  bounding planes, so that no deviation is returned.
\<close>

theorem approximate_horizontal_axis_raises:
  "compute_axes_approximate flat_pca
     (canonical [[0, 0, 0, 0], [9, 0, 1, 1], [0, 0, 2, 2]] flat_stem 3 2) 1 None () =
   Inl RuntimeError"
  by (simp add: numpy_defs stem_defs approx_defs input_defs)

text \<open>
  C7, amended. There is no guard in the deviation angle: the division by the zero
  vertical component gives an infinity, whose arctangent is a right angle. Let a stem that
  passes the size filter and the range test have a fitted axis with zero vertical component
  and non-zero horizontal part, and let the hook leave the two arrays as they are. The row
  of the stem has the deviation 90; every result of \<^verbatim>\<open>compute_axes_exact\<close> contains that
  row, and \<^verbatim>\<open>compute_axes_exact\<close> does return a result when the hook returns normally and
  no stem makes the fit or the indexing fail. \<^verbatim>\<open>compute_axes_approximate\<close> returns no
  result: the iteration of that stem raises \<^verbatim>\<open>RuntimeError\<close> (the axis is parallel to the
  bounding planes), so the call raises, and it raises this \<^verbatim>\<open>RuntimeError\<close> when the
  bounding box, the first call of the hook and the stems before that one succeed.
\<close>

theorem zero_vertical_component:
  assumes filt: "filt_unique_values A = Inr filt" and i: "i \<in> set filt"
    and fit: "fit_stem pca_fit A i = Inr (Some (row, p))"
    and z: "snd (snd (components_0 p)) = 0" and nz: "components_0 p \<noteq> (0, 0, 0)"
    and keeps: "keeps_arrays hook" and keeps2: "keeps_arrays hook2"
  shows "deviation row = Finite 90 \<and>
         (\<forall>dt dists tids w'.
            compute_axes_exact pca_fit A hook w = Inr ((dt, dists, tids), w') \<longrightarrow> row \<in> set dt) \<and>
         (returns_normally hook \<longrightarrow> (\<forall>k\<in>set filt. \<exists>r. stem_axis pca_fit A k = Inr r) \<longrightarrow>
            (\<exists>res. compute_axes_exact pca_fit A hook w = Inr res)) \<and>
         approx_body pca_fit step bb_max bb_min hook2 n i (st, A, w3) = Inl RuntimeError \<and>
         (\<exists>e. compute_axes_approximate pca_fit A res hook2 w2 = Inl e) \<and>
         (\<forall>pts lo hi Aw pre post s.
            xyz_columns (voxelated_cloud A) (X_field A) (Y_field A) (Z_field A) = Inr pts \<longrightarrow>
            min3 pts = Inr lo \<longrightarrow> max3 pts = Inr hi \<longrightarrow>
            call_hook hook2 0 (length filt) (A, w2) = Inr Aw \<longrightarrow>
            filt = pre @ i # post \<longrightarrow>
            for_each (approx_body pca_fit res hi lo hook2 (length filt)) pre
              (approx_init (length filt), Aw) = Inr s \<longrightarrow>
            compute_axes_approximate pca_fit A res hook2 w2 = Inl RuntimeError)"
proof -
  from fit_stem_row[OF fit] have p1: "pca1 row = components_0 p"
    and dev: "deviation row = deviation_angle (pca1 row)" by simp_all
  obtain x y z' where c: "components_0 p = (x, y, z')" by (cases "components_0 p")
  with z nz have "z' = 0" "(x, y) \<noteq> (0, 0)" by auto
  with dev p1 c have d90: "deviation row = Finite 90" by (simp add: deviation_angle_flat)
  have z1: "snd (snd (pca1 row)) = 0" and nz1: "pca1 row \<noteq> (0, 0, 0)" using p1 z nz by simp_all
  have ret: "row \<in> set dt"
    if "compute_axes_exact pca_fit A hook w = Inr ((dt, dists, tids), w')" for dt dists tids w'
    using exact_returns_row[OF keeps filt i fit nz1 that] .
  have tot: "\<exists>res. compute_axes_exact pca_fit A hook w = Inr res"
    if "returns_normally hook" "\<forall>k\<in>set filt. \<exists>r. stem_axis pca_fit A k = Inr r"
    using exact_returns[OF keeps that(1) filt that(2)] .
  have body: "approx_body pca_fit step bb_max bb_min hook2 n i (st, A, w3) = Inl RuntimeError"
    by (rule approx_body_flat[OF fit z1])
  have rais: "\<exists>e. compute_axes_approximate pca_fit A res hook2 w2 = Inl e"
    by (rule approximate_raises[OF keeps2 filt i fit z1])
  have prec: "compute_axes_approximate pca_fit A res hook2 w2 = Inl RuntimeError"
    if "xyz_columns (voxelated_cloud A) (X_field A) (Y_field A) (Z_field A) = Inr pts"
      "min3 pts = Inr lo" "max3 pts = Inr hi"
      "call_hook hook2 0 (length filt) (A, w2) = Inr Aw"
      "filt = pre @ i # post"
      "for_each (approx_body pca_fit res hi lo hook2 (length filt)) pre
              (approx_init (length filt), Aw) = Inr s" for pts lo hi Aw pre post s
    using approximate_raises_RuntimeError[OF keeps2 filt fit z1 that] .
  from d90 ret tot body rais prec show ?thesis by blast
qed

theorem zero_vertical_component_witness:
  "compute_axes_exact flat_pca
     (canonical [[0, 0, 0, 0], [9, 0, 1, 1], [0, 0, 2, 2]] flat_stem 3 2) None () =
   Inr (([\<lparr>tree_id = 7, pca1 = (1, 0, 0), stem_centroid = (0, 0, 0), height_diff = 0,
           deviation = Finite 90\<rparr>],
         [0, 1, 100000], [7, 7, 100000]), ()) \<and>
   \<lparr>tree_id = 7, pca1 = (1, 0, 0), stem_centroid = (0, 0, 0), height_diff = 0,
    deviation = Finite 90\<rparr> \<in>
     set [\<lparr>tree_id = 7, pca1 = (1, 0, 0), stem_centroid = (0, 0, 0), height_diff = 0,
           deviation = Finite 90\<rparr>] \<and>
   (\<exists>r. compute_axes_exact flat_pca
          (canonical [[0, 0, 0, 0], [9, 0, 1, 1], [0, 0, 2, 2]] flat_stem 3 2) None () = Inr r) \<and>
   compute_axes_approximate flat_pca
     (canonical [[0, 0, 0, 0], [9, 0, 1, 1], [0, 0, 2, 2]] flat_stem 3 2) 1 None () =
   Inl RuntimeError"
proof -
  let ?A = "canonical [[0, 0, 0, 0], [9, 0, 1, 1], [0, 0, 2, 2]] flat_stem 3 2"
  let ?flat = "\<lparr>tree_id = 7, pca1 = (1, 0, 0), stem_centroid = (0, 0, 0), height_diff = 0,
                deviation = Finite 90\<rparr>"
  let ?p = "\<lparr>components_0 = (1, 0, 0), components_1 = (0, 0, 1), components_2 = (0, 1, 0),
             pca_mean = (0, 0, 0)\<rparr>"
  have filt: "filt_unique_values ?A = Inr [7]"
    by (simp add: numpy_defs stem_defs input_defs)
  have i: "(7 :: real) \<in> set [7]" by simp
  have fit: "fit_stem flat_pca ?A 7 = Inr (Some (?flat, ?p))"
    by (simp add: numpy_defs stem_defs input_defs)
  have z: "snd (snd (components_0 ?p)) = 0" and nz: "components_0 ?p \<noteq> (0, 0, 0)" by simp_all
  have ax: "\<forall>k\<in>set [7]. \<exists>r. stem_axis flat_pca ?A k = Inr r"
    by (simp add: numpy_defs stem_defs exact_defs input_defs)
  have pts: "xyz_columns (voxelated_cloud ?A) (X_field ?A) (Y_field ?A) (Z_field ?A) =
               Inr [(0, 0, 0), (9, 0, 1), (0, 0, 2)]"
    by (simp add: numpy_defs stem_defs input_defs)
  have lo: "min3 [(0, 0, 0), (9, 0, 1), (0, 0, 2)] = Inr (0, 0, 0)"
    and hi: "max3 [(0, 0, 0), (9, 0, 1), (0, 0, 2)] = Inr (9, 0, 2)"
    by (simp_all add: numpy_defs min3_def max3_def)
  have e: "compute_axes_exact flat_pca ?A None () = Inr (([?flat], [0, 1, 100000], [7, 7, 100000]), ())"
    by (simp add: numpy_defs stem_defs exact_defs input_defs)
  note t = zero_vertical_component[where hook = None and ?hook2.0 = None and w = "()" and ?w2.0 = "()"
             and res = 1, OF filt i fit z nz keeps_arrays_None keeps_arrays_None]
  from t have t2: "\<forall>dt dists tids w'.
            compute_axes_exact flat_pca ?A None () = Inr ((dt, dists, tids), w') \<longrightarrow> ?flat \<in> set dt"
    by blast
  from t ax have t3: "\<exists>r. compute_axes_exact flat_pca ?A None () = Inr r"
    by (simp del: set_simps)
  from t have "\<forall>pts lo hi Aw pre post s.
            xyz_columns (voxelated_cloud ?A) (X_field ?A) (Y_field ?A) (Z_field ?A) = Inr pts \<longrightarrow>
            min3 pts = Inr lo \<longrightarrow> max3 pts = Inr hi \<longrightarrow>
            call_hook None 0 (length [7 :: real]) (?A, ()) = Inr Aw \<longrightarrow>
            [7] = pre @ 7 # post \<longrightarrow>
            for_each (approx_body flat_pca 1 hi lo None (length [7 :: real])) pre
              (approx_init (length [7 :: real]), Aw) = Inr s \<longrightarrow>
            compute_axes_approximate flat_pca ?A 1 None () = Inl RuntimeError"
    by blast
  from this[rule_format, OF pts lo hi, of "(?A, ())" "[]" "[]" "(approx_init (length [7 :: real]), ?A, ())"]
  have t6: "compute_axes_approximate flat_pca ?A 1 None () = Inl RuntimeError" by simp
  from e t2[rule_format, OF e] t3 t6 show ?thesis by simp
qed

section \<open>The validity flag of a height\<close>

lemma tree_height_flag:
  assumes "tree_height cloud m row = Inr r"
  shows "last r = (if np_greater (deviation row) m then 0 else 1)"
  using assms by (auto simp: tree_height_def and_then_Inr_iff Let_def)

text \<open>
  C8. When \<^verbatim>\<open>compute_heights\<close> returns, it returns one row per detected tree, and the
  last entry of the row of tree \<open>i\<close>, the validity flag, is 0 when the deviation of the
  tree (the last column of its row of \<^verbatim>\<open>detected_trees\<close>) is strictly greater than
  \<^verbatim>\<open>max_dev\<close> and 1 otherwise: for a deviation \<open>x\<close> the flag is 0 exactly when
  \<open>max_dev < x\<close> and 1 exactly when \<open>x \<le> max_dev\<close>, so that a deviation equal to
  \<^verbatim>\<open>max_dev\<close> gives 1. (A deviation that is NaN is not greater than \<^verbatim>\<open>max_dev\<close>.)
\<close>

theorem validity_flag:
  assumes "compute_heights voxelate dbscan H = Inr tree_heights"
  shows "length tree_heights = length (h_detected_trees H) \<and>
         (\<forall>i<length (h_detected_trees H).
            last (tree_heights ! i) =
              (if np_greater (deviation (h_detected_trees H ! i)) (max_dev H) then 0 else 1)) \<and>
         (\<forall>i<length (h_detected_trees H). \<forall>x. deviation (h_detected_trees H ! i) = Finite x \<longrightarrow>
            (last (tree_heights ! i) = 0 \<longleftrightarrow> max_dev H < x) \<and>
            (last (tree_heights ! i) = 1 \<longleftrightarrow> x \<le> max_dev H))"
proof -
  from assms obtain cloud where
    rows: "map_result (tree_height cloud (max_dev H)) (h_detected_trees H) = Inr tree_heights"
    by (auto simp: compute_heights_def and_then_Inr_iff)
  from map_result_Inr[OF rows] tree_height_flag
  have len: "length tree_heights = length (h_detected_trees H)"
    and flag: "\<forall>i<length (h_detected_trees H).
            last (tree_heights ! i) =
              (if np_greater (deviation (h_detected_trees H ! i)) (max_dev H) then 0 else 1)"
    by blast+
  from flag have "\<forall>i<length (h_detected_trees H). \<forall>x. deviation (h_detected_trees H ! i) = Finite x \<longrightarrow>
            (last (tree_heights ! i) = 0 \<longleftrightarrow> max_dev H < x) \<and>
            (last (tree_heights ! i) = 1 \<longleftrightarrow> x \<le> max_dev H)"
    by auto
  with len flag show ?thesis by blast
qed

theorem validity_flag_witness:
  "compute_heights unit_voxelate one_cluster
     (heights_input four_points [7, 7, 8, 8] [tree_of 7 (Finite 25), tree_of 8 (Finite 26)]) =
     Inr [[0, 0, 5, 9 / 2, 1], [4, 0, 3, 5 / 2, 0]] \<and>
   last ([[0, 0, 5, 9 / 2, 1], [4, 0, 3, 5 / 2, 0]] ! 0) =
     (if np_greater (Finite 25) 25 then 0 else (1::real)) \<and>
   last ([[0, 0, 5, 9 / 2, 1], [4, 0, 3, 5 / 2, 0]] ! 1) =
     (if np_greater (Finite 26) 25 then 0 else (1::real))"
proof -
  let ?H = "heights_input four_points [7, 7, 8, 8] [tree_of 7 (Finite 25), tree_of 8 (Finite 26)]"
  have run: "compute_heights unit_voxelate one_cluster ?H =
             Inr [[0, 0, 5, 9 / 2, 1], [4, 0, 3, 5 / 2, 0]]"
    by (simp add: numpy_defs heights_defs input_defs)
  from validity_flag[OF run] show ?thesis
    using run by (simp add: heights_input_def tree_of_def)
qed

section \<open>The progress hook\<close>

lemma exact_body_hook:
  assumes "keeps_arrays hook" "returns_normally hook" "keeps_arrays hook2" "returns_normally hook2"
  shows "map_sum id (\<lambda>s. (fst s, fst (snd s))) (exact_body pca_fit hook n i (st, A, w)) =
         map_sum id (\<lambda>s. (fst s, fst (snd s))) (exact_body pca_fit hook2 n2 i (st, A, w2))"
proof -
  from call_hook_returns[OF assms(1,2)] obtain w' where
    h: "call_hook hook (id_progress st + 1) n (A, w) = Inr (A, w')" by blast
  from call_hook_returns[OF assms(3,4)] obtain w2' where
    h2: "call_hook hook2 (id_progress st + 1) n2 (A, w2) = Inr (A, w2')" by blast
  from h h2 show ?thesis
    by (cases "stem_axis pca_fit A i")
       (auto simp: exact_body_def and_then_def Let_def split: option.splits sum.splits)
qed

lemma approx_body_hook:
  assumes "keeps_arrays hook" "returns_normally hook" "keeps_arrays hook2" "returns_normally hook2"
  shows "map_sum id (\<lambda>s. (fst s, fst (snd s)))
           (approx_body pca_fit step bb_max bb_min hook n i (st, A, w)) =
         map_sum id (\<lambda>s. (fst s, fst (snd s)))
           (approx_body pca_fit step bb_max bb_min hook2 n2 i (st, A, w2))"
proof -
  from call_hook_returns[OF assms(1,2)] obtain w' where
    h: "call_hook hook (a_id_progress st + 1) n (A, w) = Inr (A, w')" by blast
  from call_hook_returns[OF assms(3,4)] obtain w2' where
    h2: "call_hook hook2 (a_id_progress st + 1) n2 (A, w2) = Inr (A, w2')" by blast
  from h h2 show ?thesis
    by (cases "fit_stem pca_fit A i")
       (auto simp: approx_body_def and_then_def Let_def split: option.splits sum.splits)
qed

lemma exact_hook:
  assumes b: "keeps_arrays hook" "returns_normally hook"
    and b2: "keeps_arrays hook2" "returns_normally hook2"
  shows "map_sum id fst (compute_axes_exact pca_fit A hook w) =
         map_sum id fst (compute_axes_exact pca_fit A hook2 w2)"
proof (cases "filt_unique_values A")
  case (Inl e)
  then show ?thesis by (simp add: compute_axes_exact_def and_then_def)
next
  case (Inr filt)
  let ?n = "length filt"
  let ?s = "exact_init (length (voxelated_cloud A)) ?n"
  from call_hook_returns[OF b] obtain w' where
    h: "call_hook hook 0 ?n (A, w) = Inr (A, w')" by blast
  from call_hook_returns[OF b2] obtain w2' where
    h2: "call_hook hook2 0 ?n (A, w2) = Inr (A, w2')" by blast
  have "map_sum id (\<lambda>s. (fst s, fst (snd s))) (exact_loop pca_fit hook ?n filt (?s, A, w')) =
        map_sum id (\<lambda>s. (fst s, fst (snd s))) (exact_loop pca_fit hook2 ?n filt (?s, A, w2'))"
    unfolding exact_loop_def by (rule for_each_simulation) (rule exact_body_hook[OF b b2])
  then show ?thesis using Inr h h2
    by (auto simp: compute_axes_exact_def and_then_def Let_def split: sum.splits)
qed

lemma approximate_hook:
  assumes b: "keeps_arrays hook" "returns_normally hook"
    and b2: "keeps_arrays hook2" "returns_normally hook2"
  shows "map_sum id fst (compute_axes_approximate pca_fit A res hook w) =
         map_sum id fst (compute_axes_approximate pca_fit A res hook2 w2)"
proof (cases "filt_unique_values A")
  case (Inl e)
  then show ?thesis by (simp add: compute_axes_approximate_def and_then_def)
next
  case filt: (Inr filt)
  show ?thesis
  proof (cases "xyz_columns (voxelated_cloud A) (X_field A) (Y_field A) (Z_field A)")
    case (Inl e)
    with filt show ?thesis by (simp add: compute_axes_approximate_def and_then_def)
  next
    case pts: (Inr pts)
    show ?thesis
    proof (cases "min3 pts")
      case (Inl e)
      with filt pts show ?thesis by (simp add: compute_axes_approximate_def and_then_def)
    next
      case lo: (Inr bb_min)
      show ?thesis
      proof (cases "max3 pts")
        case (Inl e)
        with filt pts lo show ?thesis by (simp add: compute_axes_approximate_def and_then_def)
      next
        case hi: (Inr bb_max)
        let ?n = "length filt"
        from call_hook_returns[OF b] obtain w' where
          h: "call_hook hook 0 ?n (A, w) = Inr (A, w')" by blast
        from call_hook_returns[OF b2] obtain w2' where
          h2: "call_hook hook2 0 ?n (A, w2) = Inr (A, w2')" by blast
        have "map_sum id (\<lambda>s. (fst s, fst (snd s)))
                (for_each (approx_body pca_fit res bb_max bb_min hook ?n) filt
                   (approx_init ?n, A, w')) =
              map_sum id (\<lambda>s. (fst s, fst (snd s)))
                (for_each (approx_body pca_fit res bb_max bb_min hook2 ?n) filt
                   (approx_init ?n, A, w2'))"
          by (rule for_each_simulation) (rule approx_body_hook[OF b b2])
        then show ?thesis using filt pts lo hi h h2
          by (auto simp: compute_axes_approximate_def and_then_def Let_def split: sum.splits)
      qed
    qed
  qed
qed

lemma exact_body_no_hook:
  assumes "exact_body pca_fit None n i (st, A, w) = Inr (st', A', w')"
  shows "w' = w"
  using assms
  by (auto simp: exact_body_def and_then_Inr_iff Let_def split: option.splits)

lemma approx_body_no_hook:
  assumes "approx_body pca_fit step bb_max bb_min None n i (st, A, w) = Inr (st', A', w')"
  shows "w' = w"
  using assms
  by (auto simp: approx_body_def and_then_Inr_iff Let_def split: option.splits)

lemma exact_no_hook:
  assumes "compute_axes_exact pca_fit A None w = Inr (r, w')"
  shows "w' = w"
proof -
  from assms obtain filt st A' where
    loop: "for_each (exact_body pca_fit None (length filt)) filt
             (exact_init (length (voxelated_cloud A)) (length filt), A, w) = Inr (st, A', w')"
    by (auto simp: compute_axes_exact_def exact_loop_def and_then_Inr_iff Let_def)
  have "(\<lambda>s. snd (snd s) = w) (st, A', w')"
    using loop
  proof (rule for_each_invariant)
    fix x t t'
    assume "snd (snd t) = w" "exact_body pca_fit None (length filt) x t = Inr t'"
    then show "snd (snd t') = w"
      by (cases t; cases t') (auto dest: exact_body_no_hook)
  qed simp
  then show ?thesis by simp
qed

lemma approximate_no_hook:
  assumes "compute_axes_approximate pca_fit A res None w = Inr (r, w')"
  shows "w' = w"
proof -
  from assms obtain filt bb_max bb_min st A' where
    loop: "for_each (approx_body pca_fit res bb_max bb_min None (length filt)) filt
             (approx_init (length filt), A, w) = Inr (st, A', w')"
    by (auto simp: compute_axes_approximate_def and_then_Inr_iff Let_def)
  have "(\<lambda>s. snd (snd s) = w) (st, A', w')"
    using loop
  proof (rule for_each_invariant)
    fix x t t'
    assume "snd (snd t) = w" "approx_body pca_fit res bb_max bb_min None (length filt) x t = Inr t'"
    then show "snd (snd t') = w"
      by (cases t; cases t') (auto dest: approx_body_no_hook)
  qed simp
  then show ?thesis by simp
qed

text \<open>
  C9, as stated, fails: the hook is the caller's code, and it runs between two iterations
  that read \<^verbatim>\<open>clust_stripe\<close> and \<^verbatim>\<open>voxelated_cloud\<close> again (lines 123 and 155). A hook
  that flattens the stripe once the first stem is done makes the second stem fail the range
  test, and the second point stays unassigned; a hook that raises ends the run.
\<close>

theorem progress_hook_changes_result:
  "compute_axes_exact upright_pca (canonical [[1, 0, 0, 0], [2, 0, 2, 2]] two_stems 3 2) None () =
   Inr (([\<lparr>tree_id = 7, pca1 = (0, 0, 1), stem_centroid = (0, 0, 3 / 2), height_diff = 0,
           deviation = Finite 0\<rparr>,
          \<lparr>tree_id = 8, pca1 = (0, 0, 1), stem_centroid = (2, 0, 3 / 2), height_diff = 0,
           deviation = Finite 0\<rparr>],
         [1, 0], [7, 8]), ()) \<and>
   compute_axes_exact upright_pca (canonical [[1, 0, 0, 0], [2, 0, 2, 2]] two_stems 3 2)
     (Some flatten_after_first) () =
   Inr (([\<lparr>tree_id = 7, pca1 = (0, 0, 1), stem_centroid = (0, 0, 3 / 2), height_diff = 0,
           deviation = Finite 0\<rparr>],
         [1, 100000], [7, 100000]), ()) \<and>
   compute_axes_exact upright_pca (canonical [[1, 0, 0, 0], [2, 0, 2, 2]] two_stems 3 2)
     (Some raising_hook) () = Inl RuntimeError \<and>
   compute_axes_approximate upright_pca
     (canonical [[0, 0, 0, 0], [0, 0, 1, 1], [0, 0, 2, 2], [2, 0, 0, 0], [2, 0, 1, 1], [2, 0, 1, 1]]
        two_stems 3 2) 1 None () =
   Inr (([\<lparr>tree_id = 7, pca1 = (0, 0, 1), stem_centroid = (0, 0, 3 / 2), height_diff = 0,
           deviation = Finite 0\<rparr>,
          \<lparr>tree_id = 8, pca1 = (0, 0, 1), stem_centroid = (2, 0, 3 / 2), height_diff = 0,
           deviation = Finite 0\<rparr>],
         [0, 0, 1, 0, 0, 0], [7, 7, 7, 8, 8, 8]), ()) \<and>
   compute_axes_approximate upright_pca
     (canonical [[0, 0, 0, 0], [0, 0, 1, 1], [0, 0, 2, 2], [2, 0, 0, 0], [2, 0, 1, 1], [2, 0, 1, 1]]
        two_stems 3 2) 1 (Some flatten_after_first) () =
   Inr (([\<lparr>tree_id = 7, pca1 = (0, 0, 1), stem_centroid = (0, 0, 3 / 2), height_diff = 0,
           deviation = Finite 0\<rparr>],
         [0, 0, 1, 2, 2, 2], [7, 7, 7, 7, 7, 7]), ()) \<and>
   compute_axes_approximate upright_pca
     (canonical [[0, 0, 0, 0], [0, 0, 1, 1], [0, 0, 2, 2], [2, 0, 0, 0], [2, 0, 1, 1], [2, 0, 1, 1]]
        two_stems 3 2) 1 (Some raising_hook) () = Inl RuntimeError"
  apply (intro conjI)
  apply (simp add: numpy_defs stem_defs exact_defs input_defs raising_hook_def)
  apply (simp add: numpy_defs stem_defs exact_defs input_defs raising_hook_def)
  apply (simp add: numpy_defs stem_defs exact_defs input_defs raising_hook_def)
  apply (simp add: numpy_defs stem_defs approx_defs input_defs raising_hook_def numeral_2_eq_2)
  apply (simp add: numpy_defs stem_defs approx_defs input_defs raising_hook_def numeral_2_eq_2)
  apply (simp add: numpy_defs stem_defs approx_defs input_defs raising_hook_def numeral_2_eq_2)
  done

text \<open>
  C9, amended. For a hook that returns normally and leaves \<^verbatim>\<open>voxelated_cloud\<close> and
  \<^verbatim>\<open>clust_stripe\<close> as they are, the progress hook is a side channel: with the hook or
  without, both strategies return the same error or the same \<^verbatim>\<open>detected_trees\<close>,
  \<^verbatim>\<open>dist_to_axis\<close> and \<^verbatim>\<open>tree_id_vector\<close>. Without a hook nothing is called: the state on
  which a hook would act is returned as it was given.
\<close>

theorem progress_hook_is_side_channel:
  assumes "keeps_arrays (Some hook)" and "returns_normally (Some hook)"
  shows "map_sum id fst (compute_axes_exact pca_fit A (Some hook) w) =
           map_sum id fst (compute_axes_exact pca_fit A None w) \<and>
         map_sum id fst (compute_axes_approximate pca_fit A res (Some hook) w) =
           map_sum id fst (compute_axes_approximate pca_fit A res None w) \<and>
         map_sum id snd (compute_axes_exact pca_fit A None w) =
           map_sum id (\<lambda>r. w) (compute_axes_exact pca_fit A None w) \<and>
         map_sum id snd (compute_axes_approximate pca_fit A res None w) =
           map_sum id (\<lambda>r. w) (compute_axes_approximate pca_fit A res None w)"
proof (intro conjI)
  show "map_sum id fst (compute_axes_exact pca_fit A (Some hook) w) =
           map_sum id fst (compute_axes_exact pca_fit A None w)"
    by (rule exact_hook[OF assms keeps_arrays_None returns_normally_None])
  show "map_sum id fst (compute_axes_approximate pca_fit A res (Some hook) w) =
           map_sum id fst (compute_axes_approximate pca_fit A res None w)"
    by (rule approximate_hook[OF assms keeps_arrays_None returns_normally_None])
  show "map_sum id snd (compute_axes_exact pca_fit A None w) =
     map_sum id (\<lambda>r. w) (compute_axes_exact pca_fit A None w)"
  proof (cases "compute_axes_exact pca_fit A None w")
    case (Inr rw)
    then show ?thesis using exact_no_hook[of pca_fit A w "fst rw" "snd rw"] by simp
  qed simp
  show "map_sum id snd (compute_axes_approximate pca_fit A res None w) =
     map_sum id (\<lambda>r. w) (compute_axes_approximate pca_fit A res None w)"
  proof (cases "compute_axes_approximate pca_fit A res None w")
    case (Inr rw)
    then show ?thesis using approximate_no_hook[of pca_fit A res w "fst rw" "snd rw"] by simp
  qed simp
qed

text \<open>The hook is called once before the first stem and once per stem, with the count of stems.\<close>

lemma progress_hook_calls:
  "compute_axes_exact upright_pca (canonical [[1, 0, 0, 0], [2, 0, 2, 2]] two_stems 3 2)
     (Some log_progress) [] =
   Inr (([\<lparr>tree_id = 7, pca1 = (0, 0, 1), stem_centroid = (0, 0, 3 / 2), height_diff = 0,
           deviation = Finite 0\<rparr>,
          \<lparr>tree_id = 8, pca1 = (0, 0, 1), stem_centroid = (2, 0, 3 / 2), height_diff = 0,
           deviation = Finite 0\<rparr>],
         [1, 0], [7, 8]),
        [(0, 2), (1, 2), (2, 2)])"
  by (simp add: numpy_defs stem_defs exact_defs input_defs)

theorem progress_hook_is_side_channel_witness:
  "keeps_arrays (Some log_progress) \<and> returns_normally (Some log_progress) \<and>
   map_sum id fst
     (compute_axes_exact upright_pca (canonical [[1, 0, 0, 0], [2, 0, 2, 2]] two_stems 3 2)
        (Some log_progress) []) =
   Inr ([\<lparr>tree_id = 7, pca1 = (0, 0, 1), stem_centroid = (0, 0, 3 / 2), height_diff = 0,
          deviation = Finite 0\<rparr>,
         \<lparr>tree_id = 8, pca1 = (0, 0, 1), stem_centroid = (2, 0, 3 / 2), height_diff = 0,
          deviation = Finite 0\<rparr>],
        [1, 0], [7, 8])"
proof -
  have k: "keeps_arrays (Some log_progress)" by (simp add: keeps_arrays_def log_progress_def)
  have r: "returns_normally (Some log_progress)"
    by (simp add: returns_normally_def log_progress_def)
  have e: "compute_axes_exact upright_pca (canonical [[1, 0, 0, 0], [2, 0, 2, 2]] two_stems 3 2)
             None ([] :: (nat \<times> nat) list) =
           Inr (([\<lparr>tree_id = 7, pca1 = (0, 0, 1), stem_centroid = (0, 0, 3 / 2), height_diff = 0,
                   deviation = Finite 0\<rparr>,
                  \<lparr>tree_id = 8, pca1 = (0, 0, 1), stem_centroid = (2, 0, 3 / 2), height_diff = 0,
                   deviation = Finite 0\<rparr>],
                 [1, 0], [7, 8]), [])"
    by (simp add: numpy_defs stem_defs exact_defs input_defs)
  from progress_hook_is_side_channel
         [OF k r, of upright_pca "canonical [[1, 0, 0, 0], [2, 0, 2, 2]] two_stems 3 2" "[]" 1]
  show ?thesis using k r by (simp add: e)
qed

section \<open>A detected tree without surviving point\<close>

text \<open>
  C10. Let the two filters of \<^verbatim>\<open>compute_heights\<close> (distance to the axis below \<^verbatim>\<open>d\<close>,
  cluster of more than three voxels and not noise) leave the points \<open>cloud\<close>. If some
  detected tree has no point among them, \<^verbatim>\<open>np.argmax\<close> raises \<^verbatim>\<open>ValueError\<close> on its
  empty selection, and \<^verbatim>\<open>compute_heights\<close> returns no table of heights but an error.
\<close>

theorem empty_selection_raises:
  assumes "heights_filter voxelate dbscan H = Inr cloud"
    and "row \<in> set (h_detected_trees H)"
    and "single_tree cloud (tree_id row) = Inr []"
  shows "tree_height cloud (max_dev H) row = Inl ValueError \<and>
         (\<exists>e. compute_heights voxelate dbscan H = Inl e)"
proof -
  have th: "tree_height cloud (max_dev H) row = Inl ValueError"
    using assms(3) by (simp add: tree_height_def and_then_def column_def np_argmax_def)
  from map_result_Inl[of row "h_detected_trees H" "tree_height cloud (max_dev H)" ValueError,
                      OF assms(2) th]
  have "\<exists>e. compute_heights voxelate dbscan H = Inl e"
    using assms(1) by (simp add: compute_heights_def and_then_def)
  with th show ?thesis by simp
qed

theorem empty_selection_raises_witness:
  "tree_height [[0, 0, 1, 1, 0, 7], [0, 0, 5, 5, 0, 7], [4, 0, 2, 2, 0, 8], [4, 0, 3, 3, 0, 8]]
     (max_dev (heights_input four_points [7, 7, 8, 8] [tree_of 7 (Finite 0), tree_of 9 (Finite 0)]))
     (tree_of 9 (Finite 0)) = Inl ValueError \<and>
   (\<exists>e. compute_heights unit_voxelate one_cluster
           (heights_input four_points [7, 7, 8, 8] [tree_of 7 (Finite 0), tree_of 9 (Finite 0)]) =
         Inl e)"
proof -
  let ?H = "heights_input four_points [7, 7, 8, 8] [tree_of 7 (Finite 0), tree_of 9 (Finite 0)]"
  let ?cloud = "[[0, 0, 1, 1, 0, 7], [0, 0, 5, 5, 0, 7], [4, 0, 2, 2, 0, 8], [4, 0, 3, 3, 0, 8 :: real]]"
  have f: "heights_filter unit_voxelate one_cluster ?H = Inr ?cloud"
    by (simp add: numpy_defs heights_defs input_defs)
  have r: "tree_of 9 (Finite 0) \<in> set (h_detected_trees ?H)"
    by (simp add: heights_input_def)
  have s: "single_tree ?cloud (tree_id (tree_of 9 (Finite 0))) = Inr []"
    by (simp add: numpy_defs heights_defs input_defs)
  show ?thesis by (rule empty_selection_raises[OF f r s])
qed

text \<open>On that input the error of \<^verbatim>\<open>compute_heights\<close> is the \<^verbatim>\<open>ValueError\<close> of the second tree.\<close>

lemma compute_heights_empty_selection:
  "compute_heights unit_voxelate one_cluster
     (heights_input four_points [7, 7, 8, 8] [tree_of 7 (Finite 0), tree_of 9 (Finite 0)]) =
   Inl ValueError"
  by (simp add: numpy_defs heights_defs input_defs)

end
